theory Spec2Isabelle
  imports Complex_Main
begin

section \<open>Python strings\<close>

text \<open>
  The backend is Python; its strings are modelled as Isabelle strings (character lists),
  a character standing for the code point of its number, and the string methods the
  pipeline calls are written out for the code points below 256. There the whitespace of
  \<^verbatim>\<open>str.strip\<close>, \<^verbatim>\<open>str.split\<close> and the regular expressions' \<^verbatim>\<open>\s\<close> is:
  tab, line feed, vertical tab, form feed, carriage return, the four separators 0x1C to
  0x1F, the blank, next line (0x85) and the no-break space (0xA0); a digit of \<^verbatim>\<open>\d\<close>
  is one of 0 to 9; the upper-case letters are A to Z and 0xC0 to 0xDE without the
  multiplication sign 0xD7, each with its lower-case letter 0x20 above it; and the
  lower-case letters with no upper-case letter below 256 are the two ordinal indicators
  (0xAA, 0xBA), the micro sign (0xB5), the sharp s (0xDF) and y with diaeresis (0xFF).
  A string with a code point from 256 on is outside the model.
\<close>

definition py_isspace :: "char \<Rightarrow> bool" where
  "py_isspace c = (c \<in> set [CHR 0x09, CHR 0x0A, CHR 0x0B, CHR 0x0C, CHR 0x0D,
                              CHR 0x1C, CHR 0x1D, CHR 0x1E, CHR 0x1F, CHR '' '',
                              CHR 0x85, CHR 0xA0])"

definition py_isdigit :: "char \<Rightarrow> bool" where
  "py_isdigit c = (c \<in> set ''0123456789'')"

definition uppercase_letters :: string where
  "uppercase_letters =
     ''ABCDEFGHIJKLMNOPQRSTUVWXYZ'' @
     [CHR 0xC0, CHR 0xC1, CHR 0xC2, CHR 0xC3, CHR 0xC4, CHR 0xC5, CHR 0xC6, CHR 0xC7,
      CHR 0xC8, CHR 0xC9, CHR 0xCA, CHR 0xCB, CHR 0xCC, CHR 0xCD, CHR 0xCE, CHR 0xCF,
      CHR 0xD0, CHR 0xD1, CHR 0xD2, CHR 0xD3, CHR 0xD4, CHR 0xD5, CHR 0xD6, CHR 0xD8,
      CHR 0xD9, CHR 0xDA, CHR 0xDB, CHR 0xDC, CHR 0xDD, CHR 0xDE]"

text \<open>The lower-case letter of each upper-case letter, in the same order.\<close>

definition lowercase_letters :: string where
  "lowercase_letters =
     ''abcdefghijklmnopqrstuvwxyz'' @
     [CHR 0xE0, CHR 0xE1, CHR 0xE2, CHR 0xE3, CHR 0xE4, CHR 0xE5, CHR 0xE6, CHR 0xE7,
      CHR 0xE8, CHR 0xE9, CHR 0xEA, CHR 0xEB, CHR 0xEC, CHR 0xED, CHR 0xEE, CHR 0xEF,
      CHR 0xF0, CHR 0xF1, CHR 0xF2, CHR 0xF3, CHR 0xF4, CHR 0xF5, CHR 0xF6, CHR 0xF8,
      CHR 0xF9, CHR 0xFA, CHR 0xFB, CHR 0xFC, CHR 0xFD, CHR 0xFE]"

definition unpaired_lowercase :: string where
  "unpaired_lowercase = [CHR 0xAA, CHR 0xB5, CHR 0xBA, CHR 0xDF, CHR 0xFF]"

definition py_isupper :: "char \<Rightarrow> bool" where
  "py_isupper c = (c \<in> set uppercase_letters)"

definition py_islower :: "char \<Rightarrow> bool" where
  "py_islower c = (c \<in> set (lowercase_letters @ unpaired_lowercase))"

definition lower_char :: "char \<Rightarrow> char" where
  "lower_char c =
     (case map_of (zip uppercase_letters lowercase_letters) c of Some l \<Rightarrow> l | None \<Rightarrow> c)"

definition upper_char :: "char \<Rightarrow> char" where
  "upper_char c =
     (case map_of (zip lowercase_letters uppercase_letters) c of Some u \<Rightarrow> u | None \<Rightarrow> c)"

text \<open>
  The title-case form of a lower-case letter: its upper-case letter when it has one
  below 256, \<^verbatim>\<open>Ss\<close> for the sharp s, and the letter itself for the two ordinal
  indicators. The title-case forms of the micro sign and of y with diaeresis are the
  code points 0x39C and 0x178; a string in which one of the two starts a word is
  outside the model, which leaves them as they are.
\<close>

definition title_char :: "char \<Rightarrow> string" where
  "title_char c = (if c = CHR 0xDF then ''Ss'' else [upper_char c])"

text \<open>\<^verbatim>\<open>s.lower()\<close>\<close>

definition py_lower :: "string \<Rightarrow> string" where
  "py_lower s = map lower_char s"

text \<open>\<^verbatim>\<open>s.strip()\<close>: leading and trailing whitespace removed.\<close>

definition py_strip :: "string \<Rightarrow> string" where
  "py_strip s = rev (dropWhile py_isspace (rev (dropWhile py_isspace s)))"

text \<open>\<^verbatim>\<open>s.startswith(p)\<close>\<close>

fun py_startswith :: "string \<Rightarrow> string \<Rightarrow> bool" where
  "py_startswith s [] = True"
| "py_startswith [] (p # ps) = False"
| "py_startswith (c # cs) (p # ps) = (c = p \<and> py_startswith cs ps)"

text \<open>\<^verbatim>\<open>sub in s\<close>: \<open>sub\<close> occurs in \<open>s\<close> as a contiguous run of characters.\<close>

fun py_in :: "string \<Rightarrow> string \<Rightarrow> bool" where
  "py_in sub [] = (sub = [])"
| "py_in sub (c # cs) = (py_startswith (c # cs) sub \<or> py_in sub cs)"

text \<open>\<^verbatim>\<open>s.split(sep)\<close> for a separator of one character: never an empty list.\<close>

fun py_split :: "char \<Rightarrow> string \<Rightarrow> string list" where
  "py_split sep [] = [[]]"
| "py_split sep (c # cs) =
     (if c = sep then [] # py_split sep cs
      else (case py_split sep cs of [] \<Rightarrow> [[c]] | w # ws \<Rightarrow> (c # w) # ws))"

text \<open>
  \<^verbatim>\<open>s.split()\<close> with no separator: the maximal runs of non-blank characters, in
  order. The word being read is held reversed in the first argument.
\<close>

fun split_ws_from :: "string \<Rightarrow> string \<Rightarrow> string list" where
  "split_ws_from cur [] = (if cur = [] then [] else [rev cur])"
| "split_ws_from cur (c # cs) =
     (if py_isspace c then (if cur = [] then split_ws_from [] cs else rev cur # split_ws_from [] cs)
      else split_ws_from (c # cur) cs)"

definition py_split_ws :: "string \<Rightarrow> string list" where
  "py_split_ws s = split_ws_from [] s"

text \<open>\<^verbatim>\<open>s.replace(a, b)\<close> for \<open>a\<close> and \<open>b\<close> of one character each.\<close>

definition py_replace :: "char \<Rightarrow> char \<Rightarrow> string \<Rightarrow> string" where
  "py_replace a b s = map (\<lambda>c. if c = a then b else c) s"

text \<open>
  \<^verbatim>\<open>s.title()\<close>: a cased character that follows an uncased one (or starts the string)
  is made upper case, a cased character that follows a cased one lower case. The flag
  says whether the previous character was cased.
\<close>

fun title_from :: "bool \<Rightarrow> string \<Rightarrow> string" where
  "title_from prev [] = []"
| "title_from prev (c # cs) =
     (if py_islower c then (if prev then [c] else title_char c) @ title_from True cs
      else if py_isupper c then (if prev then lower_char c else c) # title_from True cs
      else c # title_from False cs)"

definition py_title :: "string \<Rightarrow> string" where
  "py_title s = title_from False s"

text \<open>\<^verbatim>\<open>str(n)\<close> for a natural number: its decimal digits.\<close>

fun str_nat :: "nat \<Rightarrow> string" where
  "str_nat n =
     (if n < 10 then [''0123456789'' ! n]
      else str_nat (n div 10) @ [''0123456789'' ! (n mod 10)])"

subsection \<open>The two regular expressions of the citation service\<close>

text \<open>
  \<^verbatim>\<open>\s*(\d+)\<close> matched at the start of \<open>s\<close>: the group, if it matches. Whitespace and
  digits are disjoint, so the greedy match is the only one.
\<close>

definition re_digits_after_ws :: "string \<Rightarrow> string option" where
  "re_digits_after_ws s =
     (let d = takeWhile py_isdigit (dropWhile py_isspace s)
      in if d = [] then None else Some d)"

text \<open>\<^verbatim>\<open>\s*(\d+(?:\.\d+)?)\<close> matched at the start of \<open>s\<close>.\<close>

definition re_number_after_ws :: "string \<Rightarrow> string option" where
  "re_number_after_ws s =
     (let r = dropWhile py_isspace s;
          d = takeWhile py_isdigit r
      in if d = [] then None
         else (case dropWhile py_isdigit r of
                 [] \<Rightarrow> Some d
               | c # t \<Rightarrow>
                   (let f = takeWhile py_isdigit t
                    in if c = CHR ''.'' \<and> f \<noteq> [] then Some (d @ [c] @ f) else Some d)))"

text \<open>\<^verbatim>\<open>(?:chapter|ch)\s*(\d+)\<close> matched at the start of \<open>s\<close>, the longer word first.\<close>

definition re_chapter_at :: "string \<Rightarrow> string option" where
  "re_chapter_at s =
     (case (if py_startswith s ''chapter'' then re_digits_after_ws (drop 7 s) else None) of
        Some d \<Rightarrow> Some d
      | None \<Rightarrow> if py_startswith s ''ch'' then re_digits_after_ws (drop 2 s) else None)"

text \<open>\<^verbatim>\<open>(?:section|sec)\s*(\d+(?:\.\d+)?)\<close> matched at the start of \<open>s\<close>.\<close>

definition re_section_at :: "string \<Rightarrow> string option" where
  "re_section_at s =
     (case (if py_startswith s ''section'' then re_number_after_ws (drop 7 s) else None) of
        Some d \<Rightarrow> Some d
      | None \<Rightarrow> if py_startswith s ''sec'' then re_number_after_ws (drop 3 s) else None)"

text \<open>\<^verbatim>\<open>re.search\<close>: the match at the leftmost position that has one; group 1 of it.\<close>

fun re_search_chapter :: "string \<Rightarrow> string option" where
  "re_search_chapter [] = None"
| "re_search_chapter (c # cs) =
     (case re_chapter_at (c # cs) of Some d \<Rightarrow> Some d | None \<Rightarrow> re_search_chapter cs)"

fun re_search_section :: "string \<Rightarrow> string option" where
  "re_search_section [] = None"
| "re_search_section (c # cs) =
     (case re_section_at (c # cs) of Some d \<Rightarrow> Some d | None \<Rightarrow> re_search_section cs)"

text \<open>\<^verbatim>\<open>sep.join(xs)\<close>\<close>

fun py_join :: "string \<Rightarrow> string list \<Rightarrow> string" where
  "py_join sep [] = []"
| "py_join sep [x] = x"
| "py_join sep (x # y # ys) = x @ sep @ py_join sep (y # ys)"

section \<open>Data model\<close>

text \<open>
  The pydantic models of \<^verbatim>\<open>src/models\<close> as records. A field that shares its name
  with a field of another model, with a HOL constant or with an Isabelle command carries
  the model's prefix. The wall-clock fields (\<^verbatim>\<open>timestamp\<close>, \<^verbatim>\<open>created_at\<close>,
  \<^verbatim>\<open>generation_time_ms\<close>) and the fields the pipeline never reads
  (\<^verbatim>\<open>user_context\<close>, \<^verbatim>\<open>user_id\<close>, \<^verbatim>\<open>embedding_vector\<close>, which is always
  \<^verbatim>\<open>None\<close>) are left out: no decision of the pipeline depends on them.
\<close>

record query_request =
  req_id :: string
  question :: string
  query_mode :: string
  selected_text :: "string option"

record document_chunk =
  chunk_id :: string
  document_id :: string
  content :: string
  chunk_index :: int

record citation =
  cit_id :: string
  cit_response_id :: string
  cit_document_id :: string
  cit_chapter :: string
  cit_section :: string
  file_path :: string
  relevance_score :: real
  text_snippet :: string

text \<open>The \<^verbatim>\<open>QueryResponse\<close> object the endpoint builds on its success path.\<close>

record query_response =
  qr_id :: string
  qr_query_id :: string
  qr_answer :: "string option"
  qr_citations :: "citation list"
  qr_retrieved_chunks :: "string list"
  qr_confidence_score :: "real option"
  qr_status :: string

text \<open>
  The dictionary the endpoint returns. The refusal envelope has the keys
  \<^verbatim>\<open>reason_code\<close> and \<^verbatim>\<open>explanation\<close>; the success envelope does not have
  them, which is \<open>None\<close> here. A citation of the returned dictionary has exactly the
  fields of the \<^verbatim>\<open>Citation\<close> model, so it is the same record.
\<close>

record response =
  resp_id :: string
  query_id :: string
  answer :: "string option"
  reason_code :: "string option"
  explanation :: "string option"
  citations :: "citation list"
  retrieved_chunks :: "string list"
  confidence_score :: "real option"
  status :: string

text \<open>
  The dictionary an answer generator returns. The keys \<^verbatim>\<open>answer\<close>,
  \<^verbatim>\<open>status\<close> and \<^verbatim>\<open>confidence_score\<close> are always present; \<^verbatim>\<open>reason_code\<close>
  and \<^verbatim>\<open>explanation\<close> are absent from a success (\<open>None\<close> here).
\<close>

record generation_result =
  gen_answer :: "string option"
  gen_status :: string
  gen_confidence_score :: "real option"
  gen_reason_code :: "string option"
  gen_explanation :: "string option"

text \<open>The dictionary \<^verbatim>\<open>check_refusal_conditions\<close> returns when it refuses.\<close>

record refusal =
  ref_reason_code :: string
  ref_explanation :: string

subsection \<open>Exceptions and the external providers\<close>

text \<open>
  Every exception the pipeline can meet is a value: the \<^verbatim>\<open>HTTPException\<close> the
  endpoint raises on a validation failure (status code and the list of messages), the
  \<^verbatim>\<open>ValueError\<close> of the citation service, and whatever a provider raises, with its
  message.
\<close>

datatype exn =
  HTTPException nat "string list"
| ValueError string
| ProviderError string

text \<open>A hit of the vector index: the point's identifier (as a string) and its payload.\<close>

record scored_point =
  point_id :: string
  payload_content :: "string option"
  payload_text :: "string option"
  payload_chunk_text :: "string option"
  payload_page_content :: "string option"
  payload_document_id :: "string option"
  payload_chunk_index :: "int option"

text \<open>
  The three external capabilities, as functions that return a value or raise: the
  embedding provider, the similarity search of the vector index (query vector and limit)
  and the language model (the text of its response to a prompt). The rendering
  \<^verbatim>\<open>str(e)\<close> of an \<^verbatim>\<open>HTTPException\<close> belongs to the web framework and is a
  parameter as well.
\<close>

record providers =
  embedding_provider :: "string \<Rightarrow> exn + real list"
  vector_index :: "real list \<Rightarrow> nat \<Rightarrow> exn + scored_point list"
  language_model :: "string \<Rightarrow> exn + string"
  http_exception_str :: "nat \<Rightarrow> string list \<Rightarrow> string"

text \<open>\<^verbatim>\<open>str(e)\<close>\<close>

definition exn_str :: "providers \<Rightarrow> exn \<Rightarrow> string" where
  "exn_str env e =
     (case e of
        HTTPException code detail \<Rightarrow> http_exception_str env code detail
      | ValueError msg \<Rightarrow> msg
      | ProviderError msg \<Rightarrow> msg)"

text \<open>
  The calls a service makes to an external provider are recorded, in order: every
  operation that can reach a provider returns the calls it made beside its result.
\<close>

datatype ext_call =
  EmbedCall string
| SearchCall "real list" nat
| GenerateCall string

text \<open>Whether a recorded call is a call of the language model.\<close>

definition is_generate_call :: "ext_call \<Rightarrow> bool" where
  "is_generate_call c = (case c of GenerateCall p \<Rightarrow> True | _ \<Rightarrow> False)"

text \<open>Whether a recorded call is a search of the vector index.\<close>

definition is_search_call :: "ext_call \<Rightarrow> bool" where
  "is_search_call c = (case c of SearchCall v k \<Rightarrow> True | _ \<Rightarrow> False)"

section \<open>Validation service\<close>

text \<open>\<^verbatim>\<open>ValidationService.validate_query_request\<close>: the list of violated rules.\<close>

definition validate_query_request :: "query_request \<Rightarrow> string list" where
  "validate_query_request q =
     (if question q = [] \<or> length (py_strip (question q)) < 3
      then [''Question must be at least 3 characters long''] else [])
     @ (if query_mode q \<notin> set [''book-wide'', ''selected-text'']
        then [''Query mode must be either 'book-wide' or 'selected-text'' @ [CHR 0x27]] else [])
     @ (if query_mode q = ''selected-text''
        then (if (case selected_text q of
                    None \<Rightarrow> True
                  | Some s \<Rightarrow> s = [] \<or> length (py_strip s) = 0)
              then [''Selected text must be provided when query mode is 'selected-text'' @ [CHR 0x27]]
              else [])
        else [])"

text \<open>\<^verbatim>\<open>ValidationService.validate_retrieved_context\<close>\<close>

definition validate_retrieved_context :: "document_chunk list \<Rightarrow> query_request \<Rightarrow> bool" where
  "validate_retrieved_context chunks q =
     (if chunks = [] then False else length chunks > 0)"

text \<open>
  \<^verbatim>\<open>ValidationService.validate_answer_grounding\<close>: the loop over the contexts returns
  \<open>True\<close> when one of the first five words of the answer occurs in a context of more
  than ten characters, and the function returns \<open>True\<close> after the loop as well.
\<close>

definition validate_answer_grounding :: "string \<Rightarrow> document_chunk list \<Rightarrow> bool" where
  "validate_answer_grounding ans chunks =
     (if ans = [] \<or> chunks = [] then False
      else if list_ex
                (\<lambda>context. length context > 10 \<and>
                   list_ex (\<lambda>word. py_in word context) (take 5 (py_split_ws (py_lower ans))))
                (map (\<lambda>chunk. py_lower (content chunk)) chunks)
           then True
           else True)"

text \<open>\<^verbatim>\<open>ValidationService._can_generate_citations\<close>\<close>

definition can_generate_citations :: "document_chunk list \<Rightarrow> bool" where
  "can_generate_citations chunks =
     list_all (\<lambda>chunk. document_id chunk \<noteq> []) chunks"

text \<open>
  \<^verbatim>\<open>ValidationService.check_refusal_conditions\<close>; the answer is optional and the
  endpoint passes none.
\<close>

definition check_refusal_conditions ::
  "query_request \<Rightarrow> document_chunk list \<Rightarrow> string option \<Rightarrow> refusal option" where
  "check_refusal_conditions q chunks ans =
     (if \<not> validate_retrieved_context chunks q then
        Some \<lparr>ref_reason_code = ''NO_RELEVANT_CONTEXT'',
              ref_explanation = ''No relevant context found in the textbook to answer the question.''\<rparr>
      else if (case ans of
                 None \<Rightarrow> False
               | Some a \<Rightarrow> a \<noteq> [] \<and> \<not> validate_answer_grounding a chunks) then
        Some \<lparr>ref_reason_code = ''NO_RELEVANT_CONTEXT'',
              ref_explanation =
                ''The answer could not be properly grounded in the provided textbook context.''\<rparr>
      else if chunks \<noteq> [] \<and> \<not> can_generate_citations chunks then
        Some \<lparr>ref_reason_code = ''CITATION_FAILURE'',
              ref_explanation = ''Citations cannot be generated for the provided context.''\<rparr>
      else None)"

section \<open>Citation service\<close>

text \<open>
  A method whose Python name starts with an underscore is written without it.
  \<^verbatim>\<open>CitationService._extract_chapter_from_path\<close>:
\<close>

definition extract_chapter_from_path :: "string \<Rightarrow> string" where
  "extract_chapter_from_path doc_id =
     (case re_search_chapter (py_lower doc_id) of
        Some n \<Rightarrow> ''Chapter '' @ n
      | None \<Rightarrow>
          (let parts = py_split (CHR ''_'') doc_id
           in if length parts > 1 then py_title (py_replace (CHR ''-'') (CHR '' '') (hd parts))
              else ''Unknown Chapter''))"

text \<open>\<^verbatim>\<open>CitationService._extract_section_from_path\<close>\<close>

definition extract_section_from_path :: "string \<Rightarrow> string" where
  "extract_section_from_path doc_id =
     (case re_search_section (py_lower doc_id) of
        Some n \<Rightarrow> ''Section '' @ n
      | None \<Rightarrow>
          (let parts = py_split (CHR ''_'') doc_id
           in if length parts > 1 then
                (case find (\<lambda>part. py_in ''section'' (py_lower part) \<or>
                                    py_in ''topic'' (py_lower part) \<or> length part > 0)
                           (tl parts) of
                   Some part \<Rightarrow> py_title (py_replace (CHR ''-'') (CHR '' '') part)
                 | None \<Rightarrow> ''General'')
              else ''General''))"

text \<open>\<^verbatim>\<open>CitationService._calculate_relevance_score\<close>\<close>

definition calculate_relevance_score :: "document_chunk \<Rightarrow> real" where
  "calculate_relevance_score chunk = 0.75"

text \<open>\<^verbatim>\<open>CitationService.format_citations\<close>: one citation per chunk, in order.\<close>

definition format_citations :: "document_chunk list \<Rightarrow> string \<Rightarrow> citation list" where
  "format_citations chunks response_id =
     map (\<lambda>(i, chunk).
            \<lparr>cit_id = ''cit_'' @ response_id @ ''_'' @ str_nat i,
             cit_response_id = response_id,
             cit_document_id = document_id chunk,
             cit_chapter = extract_chapter_from_path (document_id chunk),
             cit_section = extract_section_from_path (document_id chunk),
             file_path = document_id chunk,
             relevance_score = calculate_relevance_score chunk,
             text_snippet =
               (if length (content chunk) > 200 then take 200 (content chunk) @ ''...''
                else content chunk)\<rparr>)
         (enumerate 0 chunks)"

text \<open>\<^verbatim>\<open>CitationService.validate_citation_format\<close>\<close>

definition validate_citation_format :: "citation \<Rightarrow> bool" where
  "validate_citation_format c =
     (if list_ex (\<lambda>field. field = [] \<or> py_strip field = [])
                 [cit_chapter c, cit_section c, file_path c, text_snippet c]
      then False
      else if \<not> (0 \<le> relevance_score c \<and> relevance_score c \<le> 1) then False
      else True)"

text \<open>
  \<^verbatim>\<open>CitationService.generate_citation_for_response\<close>: the first citation that fails
  the validation raises \<^verbatim>\<open>ValueError\<close>.
\<close>

definition generate_citation_for_response ::
  "document_chunk list \<Rightarrow> string \<Rightarrow> exn + citation list" where
  "generate_citation_for_response chunks response_id =
     (let cits = format_citations chunks response_id
      in case find (\<lambda>c. \<not> validate_citation_format c) cits of
           Some c \<Rightarrow> Inl (ValueError (''Invalid citation format for document '' @ cit_document_id c))
         | None \<Rightarrow> Inr cits)"

section \<open>Embedding and retrieval services\<close>

text \<open>\<^verbatim>\<open>EmbeddingService.create_single_embedding\<close>: no provider call for an empty text.\<close>

definition create_single_embedding ::
  "providers \<Rightarrow> string \<Rightarrow> ext_call list \<times> (exn + real list)" where
  "create_single_embedding env txt =
     (if txt = [] then ([], Inr []) else ([EmbedCall txt], embedding_provider env txt))"

text \<open>
  The content of a hit: the first of the payload keys \<^verbatim>\<open>content\<close>, \<^verbatim>\<open>text\<close>,
  \<^verbatim>\<open>chunk_text\<close>, \<^verbatim>\<open>page_content\<close> that holds a non-empty string, else the
  empty string (a chain of Python's \<^verbatim>\<open>or\<close>).
\<close>

fun first_truthy :: "string option list \<Rightarrow> string" where
  "first_truthy [] = []"
| "first_truthy (None # rest) = first_truthy rest"
| "first_truthy (Some s # rest) = (if s \<noteq> [] then s else first_truthy rest)"

text \<open>The loop of \<^verbatim>\<open>_retrieve_book_wide\<close> over the hits: a hit with no content is skipped.\<close>

fun chunks_of_points :: "scored_point list \<Rightarrow> document_chunk list" where
  "chunks_of_points [] = []"
| "chunks_of_points (result # results) =
     (let c = first_truthy [payload_content result, payload_text result,
                            payload_chunk_text result, payload_page_content result]
      in if c = [] then chunks_of_points results
         else \<lparr>chunk_id = point_id result,
               document_id = (case payload_document_id result of None \<Rightarrow> [] | Some d \<Rightarrow> d),
               content = c,
               chunk_index = (case payload_chunk_index result of None \<Rightarrow> 0 | Some k \<Rightarrow> k)\<rparr>
              # chunks_of_points results)"

text \<open>\<^verbatim>\<open>RetrievalService._retrieve_book_wide\<close>: one similarity search.\<close>

definition retrieve_book_wide ::
  "providers \<Rightarrow> real list \<Rightarrow> nat \<Rightarrow> ext_call list \<times> (exn + document_chunk list)" where
  "retrieve_book_wide env query_embedding top_k =
     ([SearchCall query_embedding top_k],
      (case vector_index env query_embedding top_k of
         Inl e \<Rightarrow> Inl e
       | Inr points \<Rightarrow> Inr (chunks_of_points points)))"

text \<open>\<^verbatim>\<open>RetrievalService._retrieve_from_selected_text\<close>\<close>

definition retrieve_from_selected_text :: "string \<Rightarrow> nat \<Rightarrow> document_chunk list" where
  "retrieve_from_selected_text sel top_k =
     [\<lparr>chunk_id = ''temp_selected_text'',
       document_id = ''selected_text_session'',
       content = sel,
       chunk_index = 0\<rparr>]"

text \<open>
  \<^verbatim>\<open>RetrievalService.retrieve_for_query\<close>. Its guard,
  \<^verbatim>\<open>query_mode == "selected-text" and selected_text\<close>, holds when the mode is
  selected-text and the selected text is present and not empty: Python takes
  \<^verbatim>\<open>None\<close> and the empty string for false.
\<close>

definition retrieve_for_query ::
  "providers \<Rightarrow> real list \<Rightarrow> string \<Rightarrow> string option \<Rightarrow> nat
     \<Rightarrow> ext_call list \<times> (exn + document_chunk list)" where
  "retrieve_for_query env query_embedding mode sel top_k =
     (case sel of
        Some s \<Rightarrow>
          if mode = ''selected-text'' \<and> s \<noteq> [] then ([], Inr (retrieve_from_selected_text s top_k))
          else retrieve_book_wide env query_embedding top_k
      | None \<Rightarrow> retrieve_book_wide env query_embedding top_k)"

section \<open>Answer generation\<close>

definition nl :: string where
  "nl = [CHR 0x0A]"

definition indent :: string where
  "indent = ''        ''"

text \<open>The prompt of \<^verbatim>\<open>GeminiLLMService.generate_rag_response\<close>.\<close>

definition rag_prompt :: "string \<Rightarrow> string \<Rightarrow> string" where
  "rag_prompt qn context =
     nl @ indent @ ''Based on the following context, answer the question. If the context does not contain enough information to answer the question, respond with a refusal message.''
     @ nl @ nl @ indent @ ''Context: '' @ context
     @ nl @ nl @ indent @ ''Question: '' @ qn
     @ nl @ nl @ indent @ ''Answer:'' @ nl @ indent"

text \<open>The prompt of \<^verbatim>\<open>SelectedTextGeminiLLMService.generate_rag_response\<close>.\<close>

definition selected_text_prompt :: "string \<Rightarrow> string \<Rightarrow> string" where
  "selected_text_prompt qn context =
     nl @ indent @ ''You are a helpful assistant that answers questions only based on the provided selected text.''
     @ nl @ indent @ ''Do not use any external knowledge or information beyond what is provided in the selected text.''
     @ nl @ indent
     @ nl @ indent @ ''Selected text: '' @ context
     @ nl @ indent
     @ nl @ indent @ ''Question: '' @ qn
     @ nl @ indent
     @ nl @ indent @ ''Answer (based ONLY on the selected text): '' @ nl @ indent"

text \<open>The refusal phrases of the two services.\<close>

definition refusal_phrases :: "string list" where
  "refusal_phrases = [''cannot answer'', ''no relevant'', ''not mentioned'', ''not found in context'']"

definition selected_text_refusal_phrases :: "string list" where
  "selected_text_refusal_phrases =
     [''cannot answer'', ''no relevant'', ''not mentioned'', ''not found in selected text'',
      ''not provided in selected text'', ''outside the provided text'']"

text \<open>
  What \<^verbatim>\<open>sync_generate\<close> makes of the model's reply, for a phrase list and the
  explanation of a refusal: the reply is the text of the response, or the exception the
  provider raised.
\<close>

definition interpret_reply ::
  "providers \<Rightarrow> string list \<Rightarrow> string \<Rightarrow> exn + string \<Rightarrow> generation_result" where
  "interpret_reply env phrases refusal_explanation reply =
     (case reply of
        Inr txt \<Rightarrow>
          if txt \<noteq> [] then
            (let response_text = py_strip txt
             in if list_ex (\<lambda>phrase. py_in (py_lower phrase) (py_lower response_text)) phrases then
                  \<lparr>gen_answer = None, gen_status = ''insufficient_context'',
                   gen_confidence_score = None, gen_reason_code = Some ''NO_RELEVANT_CONTEXT'',
                   gen_explanation = Some refusal_explanation\<rparr>
                else
                  \<lparr>gen_answer = Some response_text, gen_status = ''success'',
                   gen_confidence_score = Some 0.85, gen_reason_code = None,
                   gen_explanation = None\<rparr>)
          else
            \<lparr>gen_answer = None, gen_status = ''insufficient_context'',
             gen_confidence_score = None, gen_reason_code = Some ''NO_RELEVANT_CONTEXT'',
             gen_explanation = Some ''No response was generated from the model.''\<rparr>
      | Inl e \<Rightarrow>
          \<lparr>gen_answer = None, gen_status = ''error'',
           gen_confidence_score = None, gen_reason_code = Some ''ERROR'',
           gen_explanation = Some (''Error generating response: '' @ exn_str env e)\<rparr>)"

text \<open>\<^verbatim>\<open>GeminiLLMService.generate_rag_response\<close>\<close>

definition gemini_generate_rag_response ::
  "providers \<Rightarrow> string \<Rightarrow> string \<Rightarrow> ext_call list \<times> generation_result" where
  "gemini_generate_rag_response env qn context =
     (let prompt = rag_prompt qn context
      in ([GenerateCall prompt],
          interpret_reply env refusal_phrases
            ''No relevant context found in the provided information.''
            (language_model env prompt)))"

text \<open>\<^verbatim>\<open>SelectedTextGeminiLLMService.generate_rag_response\<close>\<close>

definition selected_text_generate_rag_response ::
  "providers \<Rightarrow> string \<Rightarrow> string \<Rightarrow> ext_call list \<times> generation_result" where
  "selected_text_generate_rag_response env qn context =
     (let prompt = selected_text_prompt qn context
      in ([GenerateCall prompt],
          interpret_reply env selected_text_refusal_phrases
            ''No relevant information found in the selected text to answer the question.''
            (language_model env prompt)))"

text \<open>\<^verbatim>\<open>GenerationService._build_context\<close>\<close>

definition build_context :: "document_chunk list \<Rightarrow> string" where
  "build_context chunks =
     py_join (nl @ nl)
       (map (\<lambda>chunk. ''Source: '' @ document_id chunk @ '' | Content: ''
                        @ take 500 (content chunk) @ ''...'') chunks)"

text \<open>\<^verbatim>\<open>GenerationService._create_refusal_response\<close>\<close>

definition create_refusal_response :: "string \<Rightarrow> string \<Rightarrow> generation_result" where
  "create_refusal_response code expl =
     \<lparr>gen_answer = None, gen_status = ''insufficient_context'',
      gen_confidence_score = None, gen_reason_code = Some code,
      gen_explanation = Some expl\<rparr>"

text \<open>
  \<^verbatim>\<open>GenerationService.generate_answer\<close>, which chooses the generator by the same
  guard as the retriever.
\<close>

definition generate_answer ::
  "providers \<Rightarrow> query_request \<Rightarrow> document_chunk list \<Rightarrow> ext_call list \<times> generation_result" where
  "generate_answer env q chunks =
     (if chunks = [] then
        ([], create_refusal_response ''NO_RELEVANT_CONTEXT''
               ''No relevant context found to answer the question from the textbook.'')
      else
        (let context = build_context chunks
         in case selected_text q of
              Some s \<Rightarrow>
                if query_mode q = ''selected-text'' \<and> s \<noteq> []
                then selected_text_generate_rag_response env (question q) s
                else gemini_generate_rag_response env (question q) context
            | None \<Rightarrow> gemini_generate_rag_response env (question q) context))"

text \<open>\<^verbatim>\<open>GenerationService.validate_generation_ability\<close>\<close>

definition validate_generation_ability :: "query_request \<Rightarrow> bool" where
  "validate_generation_ability q =
     (if question q = [] \<or> length (py_strip (question q)) < 3 then False else True)"

section \<open>Response formatting\<close>

text \<open>\<^verbatim>\<open>format_citations_list\<close>: each citation field by field.\<close>

definition format_citations_list :: "citation list \<Rightarrow> citation list" where
  "format_citations_list cits =
     map (\<lambda>c. \<lparr>cit_id = cit_id c,
                cit_response_id = cit_response_id c,
                cit_document_id = cit_document_id c,
                cit_chapter = cit_chapter c,
                cit_section = cit_section c,
                file_path = file_path c,
                relevance_score = relevance_score c,
                text_snippet = text_snippet c\<rparr>) cits"

text \<open>\<^verbatim>\<open>format_response_with_citations\<close>\<close>

definition format_response_with_citations :: "query_response \<Rightarrow> response" where
  "format_response_with_citations r =
     \<lparr>resp_id = qr_id r,
      query_id = qr_query_id r,
      answer = qr_answer r,
      reason_code = None,
      explanation = None,
      citations = format_citations_list (qr_citations r),
      retrieved_chunks = qr_retrieved_chunks r,
      confidence_score = qr_confidence_score r,
      status = qr_status r\<rparr>"

text \<open>\<^verbatim>\<open>format_refusal_response\<close>\<close>

definition format_refusal_response :: "string \<Rightarrow> string \<Rightarrow> string \<Rightarrow> response" where
  "format_refusal_response qid code expl =
     \<lparr>resp_id = ''ref_'' @ qid,
      query_id = qid,
      answer = None,
      reason_code = Some code,
      explanation = Some expl,
      citations = [],
      retrieved_chunks = [],
      confidence_score = None,
      status = ''insufficient_context''\<rparr>"

section \<open>The query endpoint\<close>

text \<open>
  The body of the \<^verbatim>\<open>try\<close> block of \<^verbatim>\<open>query_endpoint\<close>: the external calls made,
  and the dictionary returned or the exception raised. The retriever is called with its
  default \<^verbatim>\<open>top_k\<close> of 5.
\<close>

definition query_endpoint_body ::
  "providers \<Rightarrow> query_request \<Rightarrow> ext_call list \<times> (exn + response)" where
  "query_endpoint_body env q =
     (let validation_errors = validate_query_request q
      in if validation_errors \<noteq> [] then ([], Inl (HTTPException 400 validation_errors))
         else if \<not> validate_generation_ability q then
           ([], Inr (format_refusal_response (req_id q) ''NO_RELEVANT_CONTEXT''
                       ''The query does not contain enough information to generate an answer.''))
         else
           (case create_single_embedding env (question q) of
              (t1, Inl e) \<Rightarrow> (t1, Inl e)
            | (t1, Inr query_embedding) \<Rightarrow>
                (case retrieve_for_query env query_embedding (query_mode q) (selected_text q) 5 of
                   (t2, Inl e) \<Rightarrow> (t1 @ t2, Inl e)
                 | (t2, Inr chunks) \<Rightarrow>
                     (case check_refusal_conditions q chunks None of
                        Some refusal_response \<Rightarrow>
                          (t1 @ t2,
                           Inr (format_refusal_response (req_id q)
                                  (ref_reason_code refusal_response)
                                  (ref_explanation refusal_response)))
                      | None \<Rightarrow>
                          (case generate_answer env q chunks of
                             (t3, res) \<Rightarrow>
                               if gen_status res = ''insufficient_context'' then
                                 (t1 @ t2 @ t3,
                                  Inr (format_refusal_response (req_id q)
                                         (case gen_reason_code res of
                                            Some code \<Rightarrow> code
                                          | None \<Rightarrow> ''NO_RELEVANT_CONTEXT'')
                                         (case gen_explanation res of
                                            Some expl \<Rightarrow> expl
                                          | None \<Rightarrow>
                                              ''Could not generate an answer based on the provided context.'')))
                               else
                                 (case generate_citation_for_response chunks (req_id q) of
                                    Inl (ValueError msg) \<Rightarrow>
                                      (t1 @ t2 @ t3,
                                       Inr (format_refusal_response (req_id q) ''CITATION_FAILURE''
                                              (''Citations could not be generated: '' @ msg)))
                                  | Inl e \<Rightarrow> (t1 @ t2 @ t3, Inl e)
                                  | Inr cits \<Rightarrow>
                                      (t1 @ t2 @ t3,
                                       Inr (format_response_with_citations
                                              \<lparr>qr_id = ''resp_'' @ req_id q,
                                               qr_query_id = req_id q,
                                               qr_answer = gen_answer res,
                                               qr_citations = cits,
                                               qr_retrieved_chunks = map chunk_id chunks,
                                               qr_confidence_score = gen_confidence_score res,
                                               qr_status = gen_status res\<rparr>))))))))"

text \<open>
  \<^verbatim>\<open>query_endpoint\<close>: the \<^verbatim>\<open>except Exception\<close> clause turns every exception of
  the body into a returned dictionary, so the endpoint always returns one.
\<close>

definition query_endpoint :: "providers \<Rightarrow> query_request \<Rightarrow> ext_call list \<times> response" where
  "query_endpoint env q =
     (case query_endpoint_body env q of
        (calls, Inr r) \<Rightarrow> (calls, r)
      | (calls, Inl e) \<Rightarrow>
          (calls,
           format_refusal_response (req_id q) ''ERROR''
             (''An error occurred while processing your request: '' @ exn_str env e)))"

section \<open>Scenarios\<close>

text \<open>
  Concrete requests and providers on which the properties below are exercised. The
  first is the book-wide question of the specification's scenario A: the index returns
  one passage of the document \<^verbatim>\<open>doc_ai_1\<close> and the model answers.
\<close>

definition scenario_request :: query_request where
  "scenario_request =
     \<lparr>req_id = ''q1'', question = ''What is artificial intelligence?'',
      query_mode = ''book-wide'', selected_text = None\<rparr>"

definition scenario_point :: scored_point where
  "scenario_point =
     \<lparr>point_id = ''p1'',
      payload_content = Some ''Artificial intelligence is the simulation of human intelligence'',
      payload_text = None, payload_chunk_text = None, payload_page_content = None,
      payload_document_id = Some ''doc_ai_1'', payload_chunk_index = Some 0\<rparr>"

definition scenario_providers :: providers where
  "scenario_providers =
     \<lparr>embedding_provider = (\<lambda>t. Inr [0.1, 0.2, 0.3]),
      vector_index = (\<lambda>v k. Inr [scenario_point]),
      language_model = (\<lambda>p. Inr ''AI is the simulation of human intelligence.''),
      http_exception_str = (\<lambda>code detail. str_nat code @ '': '' @ py_join '', '' detail)\<rparr>"

text \<open>Scenario B: the index finds nothing.\<close>

definition no_hit_providers :: providers where
  "no_hit_providers = scenario_providers\<lparr>vector_index := (\<lambda>v k. Inr [])\<rparr>"

text \<open>Scenario E: the passage found carries no document identifier.\<close>

definition unattributed_providers :: providers where
  "unattributed_providers =
     scenario_providers\<lparr>vector_index := (\<lambda>v k. Inr [scenario_point\<lparr>payload_document_id := None\<rparr>])\<rparr>"

text \<open>A request in selected-text mode.\<close>

definition selected_text_request :: query_request where
  "selected_text_request =
     \<lparr>req_id = ''q3'', question = ''What does this text say?'',
      query_mode = ''selected-text'', selected_text = Some ''Robots walk on two legs.''\<rparr>"

text \<open>
  Scenario F: two passages are found; the document identifier of the second,
  \<^verbatim>\<open>_notes\<close>, yields an empty chapter label.
\<close>

definition bad_citation_providers :: providers where
  "bad_citation_providers =
     scenario_providers
       \<lparr>vector_index :=
          (\<lambda>v k. Inr [scenario_point,
                       scenario_point\<lparr>point_id := ''p2'',
                                      payload_content := Some ''Robots walk on two legs.'',
                                      payload_document_id := Some ''_notes''\<rparr>])\<rparr>"

definition bad_citation_chunks :: "document_chunk list" where
  "bad_citation_chunks =
     [\<lparr>chunk_id = ''p1'', document_id = ''doc_ai_1'',
       content = ''Artificial intelligence is the simulation of human intelligence'',
       chunk_index = 0\<rparr>,
      \<lparr>chunk_id = ''p2'', document_id = ''_notes'',
       content = ''Robots walk on two legs.'', chunk_index = 0\<rparr>]"

text \<open>The language model returns an empty text.\<close>

definition silent_providers :: providers where
  "silent_providers = scenario_providers\<lparr>language_model := (\<lambda>p. Inr [])\<rparr>"

text \<open>The language model declines, in mixed case and with blanks around its text.\<close>

definition refusing_providers :: providers where
  "refusing_providers =
     scenario_providers\<lparr>language_model := (\<lambda>p. Inr ''  I Cannot Answer that from the context. '')\<rparr>"

text \<open>The embedding provider is unreachable.\<close>

definition embedding_down_providers :: providers where
  "embedding_down_providers =
     scenario_providers\<lparr>embedding_provider := (\<lambda>t. Inl (ProviderError ''connection refused''))\<rparr>"

text \<open>The language model raises.\<close>

definition llm_down_providers :: providers where
  "llm_down_providers =
     scenario_providers\<lparr>language_model := (\<lambda>p. Inl (ProviderError ''quota exceeded''))\<rparr>"

text \<open>Scenario C: a question of two characters.\<close>

definition short_request :: query_request where
  "short_request =
     \<lparr>req_id = ''q2'', question = ''Hi'', query_mode = ''book-wide'', selected_text = None\<rparr>"

section \<open>Stages of the endpoint\<close>

text \<open>
  The body of the endpoint, stage by stage: what it returns or raises once the earlier
  stages have passed.
\<close>

lemma py_strip_Nil: "py_strip [] = []"
  by (simp add: py_strip_def)

lemma validate_generation_ability_iff:
  "validate_generation_ability q \<longleftrightarrow> 3 \<le> length (py_strip (question q))"
  by (auto simp: validate_generation_ability_def py_strip_Nil)

lemma validated_question_long:
  "validate_query_request q = [] \<Longrightarrow> 3 \<le> length (py_strip (question q))"
  by (auto simp: validate_query_request_def split: if_splits)

lemma validated_can_generate:
  "validate_query_request q = [] \<Longrightarrow> validate_generation_ability q"
  by (simp add: validate_generation_ability_iff validated_question_long)

lemma generate_citation_for_response_cases:
  "(\<exists>msg. generate_citation_for_response chunks rid = Inl (ValueError msg)) \<or>
   (\<exists>cits. generate_citation_for_response chunks rid = Inr cits)"
  by (simp add: generate_citation_for_response_def Let_def split: option.splits)

lemma body_invalid:
  "validate_query_request q \<noteq> [] \<Longrightarrow>
   query_endpoint_body env q = ([], Inl (HTTPException 400 (validate_query_request q)))"
  by (simp add: query_endpoint_body_def Let_def)

lemma body_embedding_raises:
  "validate_query_request q = [] \<Longrightarrow>
   create_single_embedding env (question q) = (t1, Inl e) \<Longrightarrow>
   query_endpoint_body env q = (t1, Inl e)"
  by (simp add: query_endpoint_body_def Let_def validated_can_generate)

lemma body_retrieval_raises:
  "validate_query_request q = [] \<Longrightarrow>
   create_single_embedding env (question q) = (t1, Inr emb) \<Longrightarrow>
   retrieve_for_query env emb (query_mode q) (selected_text q) 5 = (t2, Inl e) \<Longrightarrow>
   query_endpoint_body env q = (t1 @ t2, Inl e)"
  by (simp add: query_endpoint_body_def Let_def validated_can_generate)

lemma body_refused:
  "validate_query_request q = [] \<Longrightarrow>
   create_single_embedding env (question q) = (t1, Inr emb) \<Longrightarrow>
   retrieve_for_query env emb (query_mode q) (selected_text q) 5 = (t2, Inr chunks) \<Longrightarrow>
   check_refusal_conditions q chunks None = Some r \<Longrightarrow>
   query_endpoint_body env q =
     (t1 @ t2, Inr (format_refusal_response (req_id q) (ref_reason_code r) (ref_explanation r)))"
  by (simp add: query_endpoint_body_def Let_def validated_can_generate)

lemma body_generator_refused:
  "validate_query_request q = [] \<Longrightarrow>
   create_single_embedding env (question q) = (t1, Inr emb) \<Longrightarrow>
   retrieve_for_query env emb (query_mode q) (selected_text q) 5 = (t2, Inr chunks) \<Longrightarrow>
   check_refusal_conditions q chunks None = None \<Longrightarrow>
   generate_answer env q chunks = (t3, res) \<Longrightarrow>
   gen_status res = ''insufficient_context'' \<Longrightarrow>
   query_endpoint_body env q =
     (t1 @ t2 @ t3,
      Inr (format_refusal_response (req_id q)
             (case gen_reason_code res of Some code \<Rightarrow> code | None \<Rightarrow> ''NO_RELEVANT_CONTEXT'')
             (case gen_explanation res of
                Some expl \<Rightarrow> expl
              | None \<Rightarrow> ''Could not generate an answer based on the provided context.'')))"
  by (simp add: query_endpoint_body_def Let_def validated_can_generate)

lemma body_citation_failure:
  "validate_query_request q = [] \<Longrightarrow>
   create_single_embedding env (question q) = (t1, Inr emb) \<Longrightarrow>
   retrieve_for_query env emb (query_mode q) (selected_text q) 5 = (t2, Inr chunks) \<Longrightarrow>
   check_refusal_conditions q chunks None = None \<Longrightarrow>
   generate_answer env q chunks = (t3, res) \<Longrightarrow>
   gen_status res \<noteq> ''insufficient_context'' \<Longrightarrow>
   generate_citation_for_response chunks (req_id q) = Inl (ValueError msg) \<Longrightarrow>
   query_endpoint_body env q =
     (t1 @ t2 @ t3,
      Inr (format_refusal_response (req_id q) ''CITATION_FAILURE''
             (''Citations could not be generated: '' @ msg)))"
  by (simp add: query_endpoint_body_def Let_def validated_can_generate)

lemma body_answered:
  "validate_query_request q = [] \<Longrightarrow>
   create_single_embedding env (question q) = (t1, Inr emb) \<Longrightarrow>
   retrieve_for_query env emb (query_mode q) (selected_text q) 5 = (t2, Inr chunks) \<Longrightarrow>
   check_refusal_conditions q chunks None = None \<Longrightarrow>
   generate_answer env q chunks = (t3, res) \<Longrightarrow>
   gen_status res \<noteq> ''insufficient_context'' \<Longrightarrow>
   generate_citation_for_response chunks (req_id q) = Inr cits \<Longrightarrow>
   query_endpoint_body env q =
     (t1 @ t2 @ t3,
      Inr (format_response_with_citations
             \<lparr>qr_id = ''resp_'' @ req_id q,
              qr_query_id = req_id q,
              qr_answer = gen_answer res,
              qr_citations = cits,
              qr_retrieved_chunks = map chunk_id chunks,
              qr_confidence_score = gen_confidence_score res,
              qr_status = gen_status res\<rparr>))"
  by (simp add: query_endpoint_body_def Let_def validated_can_generate)

text \<open>Every run of the body ends in exactly one of six ways.\<close>

lemma query_endpoint_body_cases:
  obtains
    (invalid) "validate_query_request q \<noteq> []"
      "query_endpoint_body env q = ([], Inl (HTTPException 400 (validate_query_request q)))"
  | (raises) calls e where "validate_query_request q = []"
      "query_endpoint_body env q = (calls, Inl e)"
  | (refused) calls chunks r where "validate_query_request q = []"
      "check_refusal_conditions q chunks None = Some r"
      "query_endpoint_body env q =
         (calls, Inr (format_refusal_response (req_id q) (ref_reason_code r) (ref_explanation r)))"
  | (generator_refused) calls chunks t3 res where "validate_query_request q = []"
      "check_refusal_conditions q chunks None = None"
      "generate_answer env q chunks = (t3, res)"
      "gen_status res = ''insufficient_context''"
      "query_endpoint_body env q =
         (calls,
          Inr (format_refusal_response (req_id q)
                 (case gen_reason_code res of Some code \<Rightarrow> code | None \<Rightarrow> ''NO_RELEVANT_CONTEXT'')
                 (case gen_explanation res of
                    Some expl \<Rightarrow> expl
                  | None \<Rightarrow> ''Could not generate an answer based on the provided context.'')))"
  | (citation_failure) calls msg where "validate_query_request q = []"
      "query_endpoint_body env q =
         (calls,
          Inr (format_refusal_response (req_id q) ''CITATION_FAILURE''
                 (''Citations could not be generated: '' @ msg)))"
  | (answered) calls chunks t3 res cits where "validate_query_request q = []"
      "check_refusal_conditions q chunks None = None"
      "generate_answer env q chunks = (t3, res)"
      "gen_status res \<noteq> ''insufficient_context''"
      "generate_citation_for_response chunks (req_id q) = Inr cits"
      "query_endpoint_body env q =
         (calls,
          Inr (format_response_with_citations
                 \<lparr>qr_id = ''resp_'' @ req_id q,
                  qr_query_id = req_id q,
                  qr_answer = gen_answer res,
                  qr_citations = cits,
                  qr_retrieved_chunks = map chunk_id chunks,
                  qr_confidence_score = gen_confidence_score res,
                  qr_status = gen_status res\<rparr>))"
proof (cases "validate_query_request q = []")
  case False
  then show ?thesis using invalid body_invalid by blast
next
  case valid: True
  obtain t1 r1 where emb: "create_single_embedding env (question q) = (t1, r1)"
    by (cases "create_single_embedding env (question q)")
  show ?thesis
  proof (cases r1)
    case (Inl e)
    then show ?thesis using raises valid emb body_embedding_raises by blast
  next
    case (Inr v)
    note emb_ok = emb [unfolded Inr]
    obtain t2 r2 where retr: "retrieve_for_query env v (query_mode q) (selected_text q) 5 = (t2, r2)"
      by (cases "retrieve_for_query env v (query_mode q) (selected_text q) 5")
    show ?thesis
    proof (cases r2)
      case (Inl e)
      then show ?thesis using raises valid emb_ok retr body_retrieval_raises by blast
    next
      case (Inr chunks)
      note retr_ok = retr [unfolded Inr]
      show ?thesis
      proof (cases "check_refusal_conditions q chunks None")
        case (Some r)
        then show ?thesis using refused valid emb_ok retr_ok body_refused by blast
      next
        case None
        obtain t3 res where gen: "generate_answer env q chunks = (t3, res)"
          by (cases "generate_answer env q chunks")
        show ?thesis
        proof (cases "gen_status res = ''insufficient_context''")
          case True
          then show ?thesis
            using generator_refused valid emb_ok retr_ok None gen body_generator_refused by blast
        next
          case False
          from generate_citation_for_response_cases [of chunks "req_id q"]
          show ?thesis
          proof (elim disjE exE)
            fix msg assume "generate_citation_for_response chunks (req_id q) = Inl (ValueError msg)"
            then show ?thesis
              using citation_failure valid emb_ok retr_ok None gen False body_citation_failure
              by blast
          next
            fix cits assume "generate_citation_for_response chunks (req_id q) = Inr cits"
            then show ?thesis
              using answered valid emb_ok retr_ok None gen False body_answered by blast
          qed
        qed
      qed
    qed
  qed
qed


lemma generate_answer_explanation:
  "gen_explanation (snd (generate_answer env q chunks)) \<noteq>
     Some ''The query does not contain enough information to generate an answer.''"
  by (auto simp: generate_answer_def create_refusal_response_def gemini_generate_rag_response_def
      selected_text_generate_rag_response_def interpret_reply_def Let_def
      split: option.splits sum.splits if_splits)

lemma interpret_reply_success:
  "gen_status (interpret_reply env phrases expl reply) = ''success'' \<Longrightarrow>
   gen_answer (interpret_reply env phrases expl reply) \<noteq> None"
  by (auto simp: interpret_reply_def Let_def split: sum.splits if_splits)

lemma generate_answer_success:
  "generate_answer env q chunks = (t3, res) \<Longrightarrow> gen_status res = ''success'' \<Longrightarrow>
   gen_answer res \<noteq> None"
  using interpret_reply_success
  by (auto simp: generate_answer_def create_refusal_response_def gemini_generate_rag_response_def
      selected_text_generate_rag_response_def Let_def split: option.splits if_splits)

lemma format_citations_list_id: "format_citations_list cits = cits"
  by (induction cits) (simp_all add: format_citations_list_def)

lemma length_format_citations: "length (format_citations chunks rid) = length chunks"
  by (simp add: format_citations_def)

lemma generate_citation_for_response_Inr:
  "generate_citation_for_response chunks rid = Inr cits \<Longrightarrow>
   cits = format_citations chunks rid \<and> list_all validate_citation_format cits"
  by (auto simp: generate_citation_for_response_def Let_def find_None_iff list_all_iff
      split: option.splits)

lemma not_refused_nonempty:
  "check_refusal_conditions q chunks None = None \<Longrightarrow> chunks \<noteq> []"
  by (auto simp: check_refusal_conditions_def validate_retrieved_context_def split: if_splits)

section \<open>Evaluation of the scenarios\<close>

lemma scenario_request_valid: "validate_query_request scenario_request = []"
  by code_simp

lemma scenario_answered:
  "query_endpoint scenario_providers scenario_request =
     ([EmbedCall ''What is artificial intelligence?'',
       SearchCall [0.1, 0.2, 0.3] 5,
       GenerateCall (rag_prompt ''What is artificial intelligence?''
          ''Source: doc_ai_1 | Content: Artificial intelligence is the simulation of human intelligence...'')],
      \<lparr>resp_id = ''resp_q1'', query_id = ''q1'',
       answer = Some ''AI is the simulation of human intelligence.'',
       reason_code = None, explanation = None,
       citations =
         [\<lparr>cit_id = ''cit_q1_0'', cit_response_id = ''q1'',
           cit_document_id = ''doc_ai_1'', cit_chapter = ''Doc'',
           cit_section = ''Ai'', file_path = ''doc_ai_1'',
           relevance_score = 0.75,
           text_snippet = ''Artificial intelligence is the simulation of human intelligence''\<rparr>],
       retrieved_chunks = [''p1''], confidence_score = Some 0.85,
       status = ''success''\<rparr>)"
  by code_simp

section \<open>Invariants of the response\<close>

text \<open>
  Claim C1. Whenever the endpoint returns a response of status \<^verbatim>\<open>success\<close>, its
  answer is not null, its list of citations is not empty and has one citation per
  retrieved chunk, and every citation passes \<^verbatim>\<open>validate_citation_format\<close>.
\<close>

theorem success_response_invariant:
  assumes "query_endpoint env q = (calls, r)" and "status r = ''success''"
  shows "answer r \<noteq> None \<and> citations r \<noteq> [] \<and>
         length (citations r) = length (retrieved_chunks r) \<and>
         list_all validate_citation_format (citations r)"
proof (cases rule: query_endpoint_body_cases [where q = q and env = env])
  case invalid
  with assms show ?thesis
    by (auto simp: query_endpoint_def format_refusal_response_def)
next
  case (raises calls' e)
  with assms show ?thesis
    by (auto simp: query_endpoint_def format_refusal_response_def)
next
  case (refused calls' chunks rf)
  with assms show ?thesis
    by (auto simp: query_endpoint_def format_refusal_response_def)
next
  case (generator_refused calls' chunks t3 res)
  with assms show ?thesis
    by (auto simp: query_endpoint_def format_refusal_response_def)
next
  case (citation_failure calls' msg)
  with assms show ?thesis
    by (auto simp: query_endpoint_def format_refusal_response_def)
next
  case (answered calls' chunks t3 res cits)
  from answered(6) assms(1)
  have r: "r = format_response_with_citations
             \<lparr>qr_id = ''resp_'' @ req_id q, qr_query_id = req_id q, qr_answer = gen_answer res,
              qr_citations = cits, qr_retrieved_chunks = map chunk_id chunks,
              qr_confidence_score = gen_confidence_score res, qr_status = gen_status res\<rparr>"
    by (simp add: query_endpoint_def)
  with assms(2) have st: "gen_status res = ''success''"
    by (simp add: format_response_with_citations_def)
  have a: "gen_answer res \<noteq> None"
    using generate_answer_success [OF answered(3) st] .
  have c: "cits = format_citations chunks (req_id q)" "list_all validate_citation_format cits"
    using generate_citation_for_response_Inr [OF answered(5)] by blast+
  have n: "chunks \<noteq> []"
    using not_refused_nonempty [OF answered(2)] .
  have l: "length cits = length chunks"
    using c(1) by (simp add: length_format_citations)
  from n l have "cits \<noteq> []" by auto
  with a c(2) l show ?thesis
    by (simp add: r format_response_with_citations_def format_citations_list_id)
qed

theorem success_response_invariant_witness:
  "status (snd (query_endpoint scenario_providers scenario_request)) = ''success'' \<and>
   answer (snd (query_endpoint scenario_providers scenario_request)) \<noteq> None \<and>
   citations (snd (query_endpoint scenario_providers scenario_request)) \<noteq> [] \<and>
   length (citations (snd (query_endpoint scenario_providers scenario_request))) =
     length (retrieved_chunks (snd (query_endpoint scenario_providers scenario_request))) \<and>
   list_all validate_citation_format
     (citations (snd (query_endpoint scenario_providers scenario_request)))"
  using success_response_invariant [OF scenario_answered]
  by (simp add: scenario_answered)

section \<open>The pre-retrieval check\<close>

text \<open>
  Claim C10. A request on which \<^verbatim>\<open>validate_query_request\<close> returns no error passes
  \<^verbatim>\<open>validate_generation_ability\<close>, whose check is the validator's condition on the
  question; so the refusal of the pre-retrieval branch (reason \<^verbatim>\<open>NO_RELEVANT_CONTEXT\<close>
  with the explanation of that branch) is never what the endpoint returns.
\<close>

theorem validated_request_can_generate:
  "(validate_query_request q = [] \<longrightarrow> validate_generation_ability q) \<and>
   snd (query_endpoint env q) \<noteq>
     format_refusal_response (req_id q) ''NO_RELEVANT_CONTEXT''
       ''The query does not contain enough information to generate an answer.''"
proof
  show "validate_query_request q = [] \<longrightarrow> validate_generation_ability q"
    by (simp add: validated_can_generate)
next
  let ?e = "Some ''The query does not contain enough information to generate an answer.''"
  have "explanation (snd (query_endpoint env q)) \<noteq> ?e \<or>
        reason_code (snd (query_endpoint env q)) \<noteq> Some ''NO_RELEVANT_CONTEXT''"
  proof (cases rule: query_endpoint_body_cases [where q = q and env = env])
    case invalid
    then show ?thesis by (simp add: query_endpoint_def format_refusal_response_def)
  next
    case (raises calls' e)
    then show ?thesis by (simp add: query_endpoint_def format_refusal_response_def)
  next
    case (refused calls' chunks rf)
    then show ?thesis
      by (auto simp: query_endpoint_def format_refusal_response_def check_refusal_conditions_def
          split: if_splits)
  next
    case (generator_refused calls' chunks t3 res)
    with generate_answer_explanation [of env q chunks] show ?thesis
      by (auto simp: query_endpoint_def format_refusal_response_def split: option.splits)
  next
    case (citation_failure calls' msg)
    then show ?thesis by (simp add: query_endpoint_def format_refusal_response_def)
  next
    case (answered calls' chunks t3 res cits)
    then show ?thesis
      by (simp add: query_endpoint_def format_response_with_citations_def)
  qed
  then show "snd (query_endpoint env q) \<noteq>
     format_refusal_response (req_id q) ''NO_RELEVANT_CONTEXT''
       ''The query does not contain enough information to generate an answer.''"
    by (auto simp: format_refusal_response_def)
qed

theorem validated_request_can_generate_witness:
  "validate_query_request scenario_request = [] \<and>
   validate_generation_ability scenario_request \<and>
   snd (query_endpoint scenario_providers scenario_request) \<noteq>
     format_refusal_response (req_id scenario_request) ''NO_RELEVANT_CONTEXT''
       ''The query does not contain enough information to generate an answer.''"
  using validated_request_can_generate [of scenario_request scenario_providers]
  by (simp add: scenario_request_valid)

section \<open>The post-retrieval checkpoint\<close>

lemma scenario_embedding:
  "create_single_embedding scenario_providers (question scenario_request) =
     ([EmbedCall ''What is artificial intelligence?''], Inr [0.1, 0.2, 0.3])"
  by code_simp

lemma no_hit_embedding:
  "create_single_embedding no_hit_providers (question scenario_request) =
     ([EmbedCall ''What is artificial intelligence?''], Inr [0.1, 0.2, 0.3])"
  by code_simp

lemma no_hit_retrieval:
  "retrieve_for_query no_hit_providers [0.1, 0.2, 0.3] (query_mode scenario_request)
     (selected_text scenario_request) 5 = ([SearchCall [0.1, 0.2, 0.3] 5], Inr [])"
  by code_simp

lemma unattributed_embedding:
  "create_single_embedding unattributed_providers (question scenario_request) =
     ([EmbedCall ''What is artificial intelligence?''], Inr [0.1, 0.2, 0.3])"
  by code_simp

lemma unattributed_retrieval:
  "retrieve_for_query unattributed_providers [0.1, 0.2, 0.3] (query_mode scenario_request)
     (selected_text scenario_request) 5 =
     ([SearchCall [0.1, 0.2, 0.3] 5],
      Inr [\<lparr>chunk_id = ''p1'', document_id = '''',
            content = ''Artificial intelligence is the simulation of human intelligence'',
            chunk_index = 0\<rparr>])"
  by code_simp

lemma selected_text_request_valid: "validate_query_request selected_text_request = []"
  by code_simp

lemma query_endpoint_of_body:
  "query_endpoint_body env q = (calls, Inr r) \<Longrightarrow> query_endpoint env q = (calls, r)"
  by (simp add: query_endpoint_def)

lemma create_single_embedding_calls:
  "create_single_embedding env txt = (t, r) \<Longrightarrow> \<not> list_ex is_generate_call t"
  by (auto simp: create_single_embedding_def is_generate_call_def split: if_splits)

lemma retrieve_for_query_calls:
  "retrieve_for_query env emb mode sel k = (t, r) \<Longrightarrow> \<not> list_ex is_generate_call t"
  by (auto simp: retrieve_for_query_def retrieve_book_wide_def is_generate_call_def
      split: option.splits if_splits)

text \<open>
  Claim C4. Once the request is validated, embedded and the retriever has returned its
  passages: an empty list of passages makes the endpoint return the refusal envelope
  (status \<^verbatim>\<open>insufficient_context\<close>, null answer, no citations) with the reason code
  \<^verbatim>\<open>NO_RELEVANT_CONTEXT\<close>, and a non-empty list in which some passage has an empty
  document identifier makes it return the refusal envelope with the reason code
  \<^verbatim>\<open>CITATION_FAILURE\<close>; the calls made up to then are those of the embedding and the
  retrieval, none to the language model.
\<close>

theorem post_retrieval_checkpoint:
  assumes "validate_query_request q = []"
    and "create_single_embedding env (question q) = (t1, Inr emb)"
    and "retrieve_for_query env emb (query_mode q) (selected_text q) 5 = (t2, Inr chunks)"
  shows "(chunks = [] \<longrightarrow>
            query_endpoint env q =
              (t1 @ t2,
               \<lparr>resp_id = ''ref_'' @ req_id q, query_id = req_id q, answer = None,
                reason_code = Some ''NO_RELEVANT_CONTEXT'',
                explanation =
                  Some ''No relevant context found in the textbook to answer the question.'',
                citations = [], retrieved_chunks = [], confidence_score = None,
                status = ''insufficient_context''\<rparr>)) \<and>
         (chunks \<noteq> [] \<and> list_ex (\<lambda>c. document_id c = []) chunks \<longrightarrow>
            query_endpoint env q =
              (t1 @ t2,
               \<lparr>resp_id = ''ref_'' @ req_id q, query_id = req_id q, answer = None,
                reason_code = Some ''CITATION_FAILURE'',
                explanation = Some ''Citations cannot be generated for the provided context.'',
                citations = [], retrieved_chunks = [], confidence_score = None,
                status = ''insufficient_context''\<rparr>)) \<and>
         \<not> list_ex is_generate_call (t1 @ t2)"
proof (intro conjI impI)
  assume "chunks = []"
  then have "check_refusal_conditions q chunks None =
      Some \<lparr>ref_reason_code = ''NO_RELEVANT_CONTEXT'',
            ref_explanation = ''No relevant context found in the textbook to answer the question.''\<rparr>"
    by (simp add: check_refusal_conditions_def validate_retrieved_context_def)
  from query_endpoint_of_body [OF body_refused [OF assms this]]
  show "query_endpoint env q =
      (t1 @ t2,
       \<lparr>resp_id = ''ref_'' @ req_id q, query_id = req_id q, answer = None,
        reason_code = Some ''NO_RELEVANT_CONTEXT'',
        explanation = Some ''No relevant context found in the textbook to answer the question.'',
        citations = [], retrieved_chunks = [], confidence_score = None,
        status = ''insufficient_context''\<rparr>)"
    by (simp add: format_refusal_response_def)
next
  assume "chunks \<noteq> [] \<and> list_ex (\<lambda>c. document_id c = []) chunks"
  then have "check_refusal_conditions q chunks None =
      Some \<lparr>ref_reason_code = ''CITATION_FAILURE'',
            ref_explanation = ''Citations cannot be generated for the provided context.''\<rparr>"
    by (auto simp: check_refusal_conditions_def validate_retrieved_context_def
        can_generate_citations_def list_all_iff list_ex_iff)
  from query_endpoint_of_body [OF body_refused [OF assms this]]
  show "query_endpoint env q =
      (t1 @ t2,
       \<lparr>resp_id = ''ref_'' @ req_id q, query_id = req_id q, answer = None,
        reason_code = Some ''CITATION_FAILURE'',
        explanation = Some ''Citations cannot be generated for the provided context.'',
        citations = [], retrieved_chunks = [], confidence_score = None,
        status = ''insufficient_context''\<rparr>)"
    by (simp add: format_refusal_response_def)
next
  show "\<not> list_ex is_generate_call (t1 @ t2)"
    using create_single_embedding_calls [OF assms(2)] retrieve_for_query_calls [OF assms(3)]
    by (auto simp: list_ex_iff)
qed

theorem post_retrieval_checkpoint_witness:
  "query_endpoint no_hit_providers scenario_request =
     ([EmbedCall ''What is artificial intelligence?'', SearchCall [0.1, 0.2, 0.3] 5],
      \<lparr>resp_id = ''ref_q1'', query_id = ''q1'', answer = None,
       reason_code = Some ''NO_RELEVANT_CONTEXT'',
       explanation = Some ''No relevant context found in the textbook to answer the question.'',
       citations = [], retrieved_chunks = [], confidence_score = None,
       status = ''insufficient_context''\<rparr>) \<and>
   query_endpoint unattributed_providers scenario_request =
     ([EmbedCall ''What is artificial intelligence?'', SearchCall [0.1, 0.2, 0.3] 5],
      \<lparr>resp_id = ''ref_q1'', query_id = ''q1'', answer = None,
       reason_code = Some ''CITATION_FAILURE'',
       explanation = Some ''Citations cannot be generated for the provided context.'',
       citations = [], retrieved_chunks = [], confidence_score = None,
       status = ''insufficient_context''\<rparr>) \<and>
   \<not> list_ex is_generate_call
       [EmbedCall ''What is artificial intelligence?'', SearchCall [0.1, 0.2, 0.3] 5]"
  using post_retrieval_checkpoint [OF scenario_request_valid no_hit_embedding no_hit_retrieval]
    post_retrieval_checkpoint [OF scenario_request_valid unattributed_embedding unattributed_retrieval]
  by (simp add: scenario_request_def)

section \<open>Retrieval by mode\<close>

text \<open>
  Claim C9. When \<^verbatim>\<open>retrieve_for_query\<close> is called in mode \<^verbatim>\<open>selected-text\<close> with
  a selected text that is \<^verbatim>\<open>None\<close> or empty, it takes the book-wide branch: it
  searches the vector index with the query embedding and returns the passages of the
  hits (or the exception of the search), not the synthetic passage.
\<close>

theorem selected_text_missing_falls_through:
  assumes "sel = None \<or> sel = Some []"
  shows "retrieve_for_query env emb ''selected-text'' sel k =
           ([SearchCall emb k],
            (case vector_index env emb k of
               Inl e \<Rightarrow> Inl e
             | Inr points \<Rightarrow> Inr (chunks_of_points points)))"
  using assms by (auto simp: retrieve_for_query_def retrieve_book_wide_def)

theorem selected_text_missing_falls_through_witness:
  "retrieve_for_query scenario_providers [0.1, 0.2, 0.3] ''selected-text'' None 5 =
     ([SearchCall [0.1, 0.2, 0.3] 5],
      Inr [\<lparr>chunk_id = ''p1'', document_id = ''doc_ai_1'',
            content = ''Artificial intelligence is the simulation of human intelligence'',
            chunk_index = 0\<rparr>])"
  using selected_text_missing_falls_through [of None scenario_providers "[0.1, 0.2, 0.3]" 5]
  by (simp add: scenario_providers_def scenario_point_def)

text \<open>The calls of a run of the endpoint: those of the stages it went through, in order.\<close>

lemma fst_query_endpoint: "fst (query_endpoint env q) = fst (query_endpoint_body env q)"
  by (simp add: query_endpoint_def split: prod.splits sum.splits)

lemma query_endpoint_body_calls:
  assumes "validate_query_request q = []"
  shows "\<exists>t1 r1. create_single_embedding env (question q) = (t1, r1) \<and>
           (fst (query_endpoint_body env q) = t1 \<or>
            (\<exists>emb t2 r2. r1 = Inr emb \<and>
               retrieve_for_query env emb (query_mode q) (selected_text q) 5 = (t2, r2) \<and>
               (fst (query_endpoint_body env q) = t1 @ t2 \<or>
                (\<exists>chunks t3 res. r2 = Inr chunks \<and>
                   generate_answer env q chunks = (t3, res) \<and>
                   fst (query_endpoint_body env q) = t1 @ t2 @ t3))))"
proof -
  obtain t1 r1 where emb: "create_single_embedding env (question q) = (t1, r1)"
    by (cases "create_single_embedding env (question q)")
  show ?thesis
  proof (cases r1)
    case (Inl e)
    with emb have "query_endpoint_body env q = (t1, Inl e)"
      using body_embedding_raises [OF assms] by simp
    then have "fst (query_endpoint_body env q) = t1" by simp
    with emb show ?thesis by blast
  next
    case emb_ok: (Inr v)
    from emb emb_ok have e1: "create_single_embedding env (question q) = (t1, Inr v)" by simp
    obtain t2 r2 where retr:
      "retrieve_for_query env v (query_mode q) (selected_text q) 5 = (t2, r2)"
      by (cases "retrieve_for_query env v (query_mode q) (selected_text q) 5")
    show ?thesis
    proof (cases r2)
      case (Inl e)
      with retr have "query_endpoint_body env q = (t1 @ t2, Inl e)"
        using body_retrieval_raises [OF assms e1] by simp
      then have "fst (query_endpoint_body env q) = t1 @ t2" by simp
      with emb emb_ok retr show ?thesis by blast
    next
      case retr_ok: (Inr chunks)
      from retr retr_ok
      have e2: "retrieve_for_query env v (query_mode q) (selected_text q) 5 = (t2, Inr chunks)"
        by simp
      show ?thesis
      proof (cases "check_refusal_conditions q chunks None")
        case (Some r)
        from body_refused [OF assms e1 e2 Some]
        have "fst (query_endpoint_body env q) = t1 @ t2" by simp
        with emb emb_ok retr show ?thesis by blast
      next
        case None
        obtain t3 res where gen: "generate_answer env q chunks = (t3, res)"
          by (cases "generate_answer env q chunks")
        have "fst (query_endpoint_body env q) = t1 @ t2 @ t3"
        proof (cases "gen_status res = ''insufficient_context''")
          case True
          from body_generator_refused [OF assms e1 e2 None gen True] show ?thesis by simp
        next
          case False
          from generate_citation_for_response_cases [of chunks "req_id q"] show ?thesis
          proof (elim disjE exE)
            fix msg
            assume "generate_citation_for_response chunks (req_id q) = Inl (ValueError msg)"
            from body_citation_failure [OF assms e1 e2 None gen False this]
            show ?thesis by simp
          next
            fix cits
            assume "generate_citation_for_response chunks (req_id q) = Inr cits"
            from body_answered [OF assms e1 e2 None gen False this]
            show ?thesis by simp
          qed
        qed
        with emb emb_ok retr retr_ok gen show ?thesis by blast
      qed
    qed
  qed
qed

lemma create_single_embedding_no_search:
  "create_single_embedding env txt = (t, r) \<Longrightarrow> \<not> list_ex is_search_call t"
  by (auto simp: create_single_embedding_def is_search_call_def split: if_splits)

lemma generate_answer_no_search:
  "generate_answer env q chunks = (t, res) \<Longrightarrow> \<not> list_ex is_search_call t"
  by (auto simp: generate_answer_def gemini_generate_rag_response_def
      selected_text_generate_rag_response_def is_search_call_def Let_def
      split: option.splits if_splits)

lemma validated_selected_text:
  "validate_query_request q = [] \<Longrightarrow> query_mode q = ''selected-text'' \<Longrightarrow>
   \<exists>s. selected_text q = Some s \<and> s \<noteq> []"
  by (auto simp: validate_query_request_def py_strip_Nil split: option.splits if_splits)

lemma retrieve_selected_text:
  "s \<noteq> [] \<Longrightarrow>
   retrieve_for_query env emb ''selected-text'' (Some s) k =
     ([], Inr [\<lparr>chunk_id = ''temp_selected_text'', document_id = ''selected_text_session'',
                content = s, chunk_index = 0\<rparr>])"
  by (simp add: retrieve_for_query_def retrieve_from_selected_text_def)

lemma selected_text_request_run:
  "fst (query_endpoint scenario_providers selected_text_request) =
     [EmbedCall ''What does this text say?'',
      GenerateCall (selected_text_prompt ''What does this text say?'' ''Robots walk on two legs.'')]"
  by code_simp

text \<open>
  Claim C3. For every request of mode \<^verbatim>\<open>selected-text\<close>, whatever the providers: no
  run of the endpoint searches the vector index; and when the request passes the
  validation, which is when the retriever is called, the retriever returns for every
  query embedding exactly one passage, whose content is the selected text of the request
  verbatim and whose document identifier is \<^verbatim>\<open>selected_text_session\<close>, and it makes
  no external call.
\<close>

theorem selected_text_isolation:
  assumes "query_mode q = ''selected-text''"
  shows "\<not> list_ex is_search_call (fst (query_endpoint env q)) \<and>
         (validate_query_request q = [] \<longrightarrow>
            (\<exists>s. selected_text q = Some s \<and>
                 retrieve_for_query env emb (query_mode q) (selected_text q) k =
                   ([], Inr [\<lparr>chunk_id = ''temp_selected_text'',
                              document_id = ''selected_text_session'',
                              content = s, chunk_index = 0\<rparr>])))"
proof
  show "\<not> list_ex is_search_call (fst (query_endpoint env q))"
  proof (cases "validate_query_request q = []")
    case False
    from body_invalid [OF False, of env] show ?thesis
      by (simp add: fst_query_endpoint)
  next
    case True
    from validated_selected_text [OF True assms]
    obtain s where s: "selected_text q = Some s" "s \<noteq> []" by blast
    have retr: "retrieve_for_query env e (query_mode q) (selected_text q) 5 =
        ([], Inr [\<lparr>chunk_id = ''temp_selected_text'', document_id = ''selected_text_session'',
                   content = s, chunk_index = 0\<rparr>])" for e
      using retrieve_selected_text [OF s(2)] by (simp add: assms s(1))
    from query_endpoint_body_calls [OF True, of env]
    obtain t1 r1 where t1: "create_single_embedding env (question q) = (t1, r1)"
      and shape: "fst (query_endpoint_body env q) = t1 \<or>
        (\<exists>emb t2 r2. r1 = Inr emb \<and>
           retrieve_for_query env emb (query_mode q) (selected_text q) 5 = (t2, r2) \<and>
           (fst (query_endpoint_body env q) = t1 @ t2 \<or>
            (\<exists>chunks t3 res. r2 = Inr chunks \<and>
               generate_answer env q chunks = (t3, res) \<and>
               fst (query_endpoint_body env q) = t1 @ t2 @ t3)))"
      by blast
    have n1: "\<not> list_ex is_search_call t1"
      using create_single_embedding_no_search [OF t1] .
    from shape consider "fst (query_endpoint_body env q) = t1"
      | chunks t3 res where "generate_answer env q chunks = (t3, res)"
          "fst (query_endpoint_body env q) = t1 @ t3"
      using retr by auto
    then show ?thesis
    proof cases
      case 1
      with n1 show ?thesis by (simp add: fst_query_endpoint)
    next
      case 2
      from generate_answer_no_search [OF 2(1)] n1 2(2) show ?thesis
        by (auto simp: fst_query_endpoint list_ex_iff)
    qed
  qed
next
  show "validate_query_request q = [] \<longrightarrow>
          (\<exists>s. selected_text q = Some s \<and>
               retrieve_for_query env emb (query_mode q) (selected_text q) k =
                 ([], Inr [\<lparr>chunk_id = ''temp_selected_text'',
                            document_id = ''selected_text_session'',
                            content = s, chunk_index = 0\<rparr>]))"
  proof
    assume "validate_query_request q = []"
    from validated_selected_text [OF this assms]
    obtain s where s: "selected_text q = Some s" "s \<noteq> []" by blast
    from retrieve_selected_text [OF s(2), of env emb k] s(1) assms
    show "\<exists>s. selected_text q = Some s \<and>
               retrieve_for_query env emb (query_mode q) (selected_text q) k =
                 ([], Inr [\<lparr>chunk_id = ''temp_selected_text'',
                            document_id = ''selected_text_session'',
                            content = s, chunk_index = 0\<rparr>])"
      by simp
  qed
qed

theorem selected_text_isolation_witness:
  "query_mode selected_text_request = ''selected-text'' \<and>
   validate_query_request selected_text_request = [] \<and>
   \<not> list_ex is_search_call (fst (query_endpoint scenario_providers selected_text_request)) \<and>
   selected_text selected_text_request = Some ''Robots walk on two legs.'' \<and>
   retrieve_for_query scenario_providers [0.1, 0.2, 0.3] (query_mode selected_text_request)
     (selected_text selected_text_request) 5 =
     ([], Inr [\<lparr>chunk_id = ''temp_selected_text'', document_id = ''selected_text_session'',
                content = ''Robots walk on two legs.'', chunk_index = 0\<rparr>])"
  using selected_text_isolation [of selected_text_request scenario_providers "[0.1, 0.2, 0.3]" 5]
  by (simp add: selected_text_request_valid) (simp add: selected_text_request_def)

section \<open>Citations are all or nothing\<close>

lemma bad_citation_embedding:
  "create_single_embedding bad_citation_providers (question scenario_request) =
     ([EmbedCall ''What is artificial intelligence?''], Inr [0.1, 0.2, 0.3])"
  by code_simp

lemma bad_citation_retrieval:
  "retrieve_for_query bad_citation_providers [0.1, 0.2, 0.3] (query_mode scenario_request)
     (selected_text scenario_request) 5 =
     ([SearchCall [0.1, 0.2, 0.3] 5], Inr bad_citation_chunks)"
  by code_simp

lemma bad_citation_not_refused:
  "check_refusal_conditions scenario_request bad_citation_chunks None = None"
  by code_simp

lemma bad_citation_generation:
  "generate_answer bad_citation_providers scenario_request bad_citation_chunks =
     ([GenerateCall (rag_prompt (question scenario_request) (build_context bad_citation_chunks))],
      \<lparr>gen_answer = Some ''AI is the simulation of human intelligence.'',
       gen_status = ''success'', gen_confidence_score = Some 0.85,
       gen_reason_code = None, gen_explanation = None\<rparr>)"
  by code_simp

lemma bad_citation_invalid:
  "list_ex (\<lambda>c. \<not> validate_citation_format c)
     (format_citations bad_citation_chunks (req_id scenario_request))"
  by code_simp

lemma bad_citation_first_invalid:
  "find (\<lambda>c. \<not> validate_citation_format c)
     (format_citations bad_citation_chunks (req_id scenario_request)) =
   Some \<lparr>cit_id = ''cit_q1_1'', cit_response_id = ''q1'', cit_document_id = ''_notes'',
         cit_chapter = '''', cit_section = ''Notes'', file_path = ''_notes'',
         relevance_score = 0.75, text_snippet = ''Robots walk on two legs.''\<rparr>"
  by code_simp

lemma validate_citation_format_iff:
  "validate_citation_format c \<longleftrightarrow>
     py_strip (cit_chapter c) \<noteq> [] \<and> py_strip (cit_section c) \<noteq> [] \<and>
     py_strip (file_path c) \<noteq> [] \<and> py_strip (text_snippet c) \<noteq> [] \<and>
     0 \<le> relevance_score c \<and> relevance_score c \<le> 1"
  by (auto simp: validate_citation_format_def py_strip_Nil)

lemma find_first_of_list_ex:
  "list_ex P xs \<Longrightarrow> \<exists>x. find P xs = Some x \<and> x \<in> set xs \<and> P x"
  by (induction xs) auto

text \<open>
  Claim C5. Whenever one of the citations built for the passages fails
  \<^verbatim>\<open>validate_citation_format\<close> (a chapter, section, file path or snippet that is
  empty after trimming, or a relevance score outside the unit interval, by
  \<open>validate_citation_format_iff\<close>), \<^verbatim>\<open>generate_citation_for_response\<close> raises a
  \<^verbatim>\<open>ValueError\<close> naming the first such citation and returns no citation at all; and
  when the pipeline has reached the citation stage with a generator result that is not a
  refusal, a success for one, the endpoint returns the refusal envelope: status
  \<^verbatim>\<open>insufficient_context\<close>, reason code \<^verbatim>\<open>CITATION_FAILURE\<close>, a null answer, no
  citations and a null confidence score.
\<close>

theorem citation_all_or_nothing:
  assumes "list_ex (\<lambda>c. \<not> validate_citation_format c) (format_citations chunks (req_id q))"
  shows "\<exists>c. find (\<lambda>c. \<not> validate_citation_format c) (format_citations chunks (req_id q)) = Some c \<and>
           \<not> validate_citation_format c \<and>
           generate_citation_for_response chunks (req_id q) =
             Inl (ValueError (''Invalid citation format for document '' @ cit_document_id c)) \<and>
           (validate_query_request q = [] \<and>
            create_single_embedding env (question q) = (t1, Inr emb) \<and>
            retrieve_for_query env emb (query_mode q) (selected_text q) 5 = (t2, Inr chunks) \<and>
            check_refusal_conditions q chunks None = None \<and>
            generate_answer env q chunks = (t3, res) \<and>
            gen_status res \<noteq> ''insufficient_context'' \<longrightarrow>
              query_endpoint env q =
                (t1 @ t2 @ t3,
                 \<lparr>resp_id = ''ref_'' @ req_id q, query_id = req_id q, answer = None,
                  reason_code = Some ''CITATION_FAILURE'',
                  explanation =
                    Some (''Citations could not be generated: Invalid citation format for document ''
                          @ cit_document_id c),
                  citations = [], retrieved_chunks = [], confidence_score = None,
                  status = ''insufficient_context''\<rparr>) \<and>
              answer (snd (query_endpoint env q)) = None)"
proof -
  from find_first_of_list_ex [OF assms]
  obtain c where c: "find (\<lambda>c. \<not> validate_citation_format c)
      (format_citations chunks (req_id q)) = Some c" "\<not> validate_citation_format c"
    by blast
  then have raised: "generate_citation_for_response chunks (req_id q) =
      Inl (ValueError (''Invalid citation format for document '' @ cit_document_id c))"
    by (simp add: generate_citation_for_response_def Let_def)
  {
    assume reach: "validate_query_request q = [] \<and>
            create_single_embedding env (question q) = (t1, Inr emb) \<and>
            retrieve_for_query env emb (query_mode q) (selected_text q) 5 = (t2, Inr chunks) \<and>
            check_refusal_conditions q chunks None = None \<and>
            generate_answer env q chunks = (t3, res) \<and>
            gen_status res \<noteq> ''insufficient_context''"
    then have "query_endpoint_body env q =
        (t1 @ t2 @ t3,
         Inr (format_refusal_response (req_id q) ''CITATION_FAILURE''
                (''Citations could not be generated: ''
                 @ (''Invalid citation format for document '' @ cit_document_id c))))"
      using body_citation_failure [of q env t1 emb t2 chunks t3 res] raised by blast
    then have "query_endpoint env q =
        (t1 @ t2 @ t3,
         \<lparr>resp_id = ''ref_'' @ req_id q, query_id = req_id q, answer = None,
          reason_code = Some ''CITATION_FAILURE'',
          explanation =
            Some (''Citations could not be generated: Invalid citation format for document ''
                  @ cit_document_id c),
          citations = [], retrieved_chunks = [], confidence_score = None,
          status = ''insufficient_context''\<rparr>)"
      by (simp add: query_endpoint_of_body format_refusal_response_def)
    then have "query_endpoint env q =
        (t1 @ t2 @ t3,
         \<lparr>resp_id = ''ref_'' @ req_id q, query_id = req_id q, answer = None,
          reason_code = Some ''CITATION_FAILURE'',
          explanation =
            Some (''Citations could not be generated: Invalid citation format for document ''
                  @ cit_document_id c),
          citations = [], retrieved_chunks = [], confidence_score = None,
          status = ''insufficient_context''\<rparr>) \<and>
        answer (snd (query_endpoint env q)) = None"
      by simp
  }
  with c raised show ?thesis by blast
qed

theorem citation_all_or_nothing_witness:
  "generate_citation_for_response bad_citation_chunks ''q1'' =
     Inl (ValueError ''Invalid citation format for document _notes'') \<and>
   gen_status (snd (generate_answer bad_citation_providers scenario_request bad_citation_chunks)) =
     ''success'' \<and>
   query_endpoint bad_citation_providers scenario_request =
     ([EmbedCall ''What is artificial intelligence?'', SearchCall [0.1, 0.2, 0.3] 5,
       GenerateCall (rag_prompt (question scenario_request) (build_context bad_citation_chunks))],
      \<lparr>resp_id = ''ref_q1'', query_id = ''q1'', answer = None,
       reason_code = Some ''CITATION_FAILURE'',
       explanation =
         Some ''Citations could not be generated: Invalid citation format for document _notes'',
       citations = [], retrieved_chunks = [], confidence_score = None,
       status = ''insufficient_context''\<rparr>) \<and>
   answer (snd (query_endpoint bad_citation_providers scenario_request)) = None"
  using citation_all_or_nothing [OF bad_citation_invalid, of bad_citation_providers
      "[EmbedCall ''What is artificial intelligence?'']" "[0.1, 0.2, 0.3]"
      "[SearchCall [0.1, 0.2, 0.3] 5]"
      "[GenerateCall (rag_prompt (question scenario_request) (build_context bad_citation_chunks))]"
      "\<lparr>gen_answer = Some ''AI is the simulation of human intelligence.'',
       gen_status = ''success'', gen_confidence_score = Some 0.85,
       gen_reason_code = None, gen_explanation = None\<rparr>"]
    bad_citation_first_invalid scenario_request_valid bad_citation_embedding
    bad_citation_retrieval bad_citation_not_refused bad_citation_generation
  by (simp add: scenario_request_def)

section \<open>Interpretation of the model's reply\<close>

text \<open>
  Membership of a phrase in a text, and why trimming the text does not change it for a
  phrase that neither starts nor ends with a blank.
\<close>

lemma py_startswith_iff: "py_startswith s p \<longleftrightarrow> (\<exists>r. s = p @ r)"
  by (induction s p rule: py_startswith.induct) auto

lemma py_in_iff: "py_in p s \<longleftrightarrow> (\<exists>a b. s = a @ p @ b)"
proof (induction s)
  case Nil
  then show ?case by auto
next
  case (Cons c cs)
  show ?case
  proof
    assume "py_in p (c # cs)"
    then consider "py_startswith (c # cs) p" | "py_in p cs" by auto
    then show "\<exists>a b. c # cs = a @ p @ b"
    proof cases
      case 1
      then obtain r where "c # cs = p @ r" by (auto simp: py_startswith_iff)
      then have "c # cs = [] @ p @ r" by simp
      then show ?thesis by blast
    next
      case 2
      with Cons obtain a b where "cs = a @ p @ b" by blast
      then have "c # cs = (c # a) @ p @ b" by simp
      then show ?thesis by blast
    qed
  next
    assume "\<exists>a b. c # cs = a @ p @ b"
    then obtain a b where ab: "c # cs = a @ p @ b" by blast
    show "py_in p (c # cs)"
    proof (cases a)
      case Nil
      with ab have "py_startswith (c # cs) p" by (auto simp: py_startswith_iff)
      then show ?thesis by simp
    next
      case (Cons x a')
      with ab have "cs = a' @ p @ b" by simp
      with Cons.IH have "py_in p cs" by blast
      then show ?thesis by simp
    qed
  qed
qed

lemma dropWhile_keeps_infix:
  "\<not> P x \<Longrightarrow> \<exists>a'. dropWhile P (a @ x # r) = a' @ x # r"
proof (induction a)
  case Nil
  then have "dropWhile P ([] @ x # r) = [] @ x # r" by simp
  then show ?case by blast
next
  case (Cons y a)
  show ?case
  proof (cases "P y")
    case True
    with Cons show ?thesis by simp
  next
    case False
    then have "dropWhile P ((y # a) @ x # r) = (y # a) @ x # r" by simp
    then show ?thesis by blast
  qed
qed

lemma py_strip_keeps_infix:
  assumes "p \<noteq> []" and "\<not> py_isspace (hd p)" and "\<not> py_isspace (last p)"
    and "s = a @ p @ b"
  shows "\<exists>a' b'. py_strip s = a' @ p @ b'"
proof -
  obtain x r where p: "p = x # r" using assms(1) by (cases p) auto
  with assms(2) have "\<not> py_isspace x" by simp
  then have "\<exists>a'. dropWhile py_isspace (a @ x # (r @ b)) = a' @ x # (r @ b)"
    by (rule dropWhile_keeps_infix)
  then obtain a' where 1: "dropWhile py_isspace s = a' @ p @ b"
    using assms(4) p by auto
  have "rev p \<noteq> []" using assms(1) by simp
  then obtain y t where rp: "rev p = y # t" by (cases "rev p") auto
  then have "y = last p" using assms(1) by (metis hd_rev list.sel(1))
  with assms(3) have "\<not> py_isspace y" by simp
  then have "\<exists>b'. dropWhile py_isspace (rev b @ y # (t @ rev a')) = b' @ y # (t @ rev a')"
    by (rule dropWhile_keeps_infix)
  then obtain b' where 2: "dropWhile py_isspace (rev b @ rev p @ rev a') = b' @ rev p @ rev a'"
    using rp by auto
  have "py_strip s = a' @ p @ rev b'"
    by (simp add: py_strip_def 1 2)
  then show ?thesis by blast
qed

lemma py_strip_is_infix: "\<exists>l r. s = l @ py_strip s @ r"
proof -
  have a: "s = takeWhile py_isspace s @ dropWhile py_isspace s" by simp
  let ?d = "dropWhile py_isspace s"
  have "?d = rev (dropWhile py_isspace (rev ?d)) @ rev (takeWhile py_isspace (rev ?d))"
    by (metis rev_append rev_rev_ident takeWhile_dropWhile_id)
  then have "?d = py_strip s @ rev (takeWhile py_isspace (rev ?d))"
    by (simp add: py_strip_def)
  with a have "s = takeWhile py_isspace s @ py_strip s @ rev (takeWhile py_isspace (rev ?d))"
    by simp
  then show ?thesis by blast
qed

lemma py_in_strip:
  assumes "p \<noteq> []" and "\<not> py_isspace (hd p)" and "\<not> py_isspace (last p)"
  shows "py_in p (py_strip s) \<longleftrightarrow> py_in p s"
proof
  assume "py_in p (py_strip s)"
  then obtain a b where "py_strip s = a @ p @ b" by (auto simp: py_in_iff)
  moreover obtain l r where "s = l @ py_strip s @ r" using py_strip_is_infix by blast
  ultimately have "s = (l @ a) @ p @ (b @ r)" by simp
  then show "py_in p s" unfolding py_in_iff by blast
next
  assume "py_in p s"
  then obtain a b where "s = a @ p @ b" by (auto simp: py_in_iff)
  from py_strip_keeps_infix [OF assms this] show "py_in p (py_strip s)"
    by (auto simp: py_in_iff)
qed

lemma py_isspace_lower_char: "py_isspace (lower_char c) = py_isspace c"
  by (auto simp: lower_char_def py_isspace_def uppercase_letters_def lowercase_letters_def
      split: option.splits if_splits)

lemma py_lower_strip: "py_lower (py_strip s) = py_strip (py_lower s)"
proof -
  have c: "py_isspace \<circ> lower_char = py_isspace"
    by (rule ext) (simp add: py_isspace_lower_char)
  show ?thesis
    by (simp add: py_lower_def py_strip_def rev_map dropWhile_map c)
qed

lemma phrase_check_on_raw_text:
  assumes "list_all (\<lambda>p. p \<noteq> [] \<and> \<not> py_isspace (hd p) \<and> \<not> py_isspace (last p) \<and>
                         py_lower p = p) phrases"
  shows "list_ex (\<lambda>phrase. py_in (py_lower phrase) (py_lower (py_strip txt))) phrases =
         list_ex (\<lambda>p. py_in p (py_lower txt)) phrases"
proof -
  have "py_in (py_lower p) (py_lower (py_strip txt)) = py_in p (py_lower txt)"
    if "p \<in> set phrases" for p
  proof -
    from that assms have ok: "p \<noteq> []" "\<not> py_isspace (hd p)" "\<not> py_isspace (last p)"
      "py_lower p = p"
      by (auto simp: list_all_iff)
    show ?thesis
      by (simp add: ok(4) py_lower_strip py_in_strip [OF ok(1-3)])
  qed
  then show ?thesis by (auto simp: list_ex_iff)
qed

lemma refusal_phrases_shape:
  "list_all (\<lambda>p. p \<noteq> [] \<and> \<not> py_isspace (hd p) \<and> \<not> py_isspace (last p) \<and>
                  py_lower p = p) refusal_phrases"
  by code_simp

lemma selected_text_refusal_phrases_shape:
  "list_all (\<lambda>p. p \<noteq> [] \<and> \<not> py_isspace (hd p) \<and> \<not> py_isspace (last p) \<and>
                  py_lower p = p) selected_text_refusal_phrases"
  by code_simp

lemma interpret_reply_text:
  assumes "list_all (\<lambda>p. p \<noteq> [] \<and> \<not> py_isspace (hd p) \<and> \<not> py_isspace (last p) \<and>
                         py_lower p = p) phrases"
  shows "interpret_reply env phrases expl (Inr txt) =
     (if txt = [] then
        \<lparr>gen_answer = None, gen_status = ''insufficient_context'',
         gen_confidence_score = None, gen_reason_code = Some ''NO_RELEVANT_CONTEXT'',
         gen_explanation = Some ''No response was generated from the model.''\<rparr>
      else if list_ex (\<lambda>p. py_in p (py_lower txt)) phrases then
        \<lparr>gen_answer = None, gen_status = ''insufficient_context'',
         gen_confidence_score = None, gen_reason_code = Some ''NO_RELEVANT_CONTEXT'',
         gen_explanation = Some expl\<rparr>
      else
        \<lparr>gen_answer = Some (py_strip txt), gen_status = ''success'',
         gen_confidence_score = Some 0.85, gen_reason_code = None,
         gen_explanation = None\<rparr>)"
  by (simp add: interpret_reply_def Let_def phrase_check_on_raw_text [OF assms])

lemma refusing_reply:
  "language_model refusing_providers (rag_prompt ''What is the weather on Mars?'' ''ctx'') =
     Inr ''  I Cannot Answer that from the context. ''"
  by (simp add: refusing_providers_def)

lemma refusing_reply_has_phrase:
  "list_ex (\<lambda>p. py_in p (py_lower ''  I Cannot Answer that from the context. ''))
     refusal_phrases"
  by code_simp

lemma scenario_selected_reply:
  "language_model scenario_providers
     (selected_text_prompt ''What does this text say?'' ''Robots walk on two legs.'') =
     Inr ''AI is the simulation of human intelligence.''"
  by (simp add: scenario_providers_def)

lemma scenario_reply_has_no_phrase:
  "\<not> list_ex (\<lambda>p. py_in p (py_lower ''AI is the simulation of human intelligence.''))
       selected_text_refusal_phrases"
  by code_simp

lemma scenario_reply_stripped:
  "py_strip ''AI is the simulation of human intelligence.'' =
     ''AI is the simulation of human intelligence.''"
  by code_simp

text \<open>
  Claim C8, as stated, fails on the empty reply: it holds none of the refusal phrases,
  yet the result is not a success but \<^verbatim>\<open>insufficient_context\<close>.
\<close>

theorem empty_reply_is_not_success_counterexample:
  "\<not> list_ex (\<lambda>p. py_in p (py_lower [])) refusal_phrases \<and>
   language_model silent_providers
     (rag_prompt ''What is artificial intelligence?'' ''Artificial intelligence...'') = Inr [] \<and>
   snd (gemini_generate_rag_response silent_providers ''What is artificial intelligence?''
          ''Artificial intelligence...'') =
     \<lparr>gen_answer = None, gen_status = ''insufficient_context'',
      gen_confidence_score = None, gen_reason_code = Some ''NO_RELEVANT_CONTEXT'',
      gen_explanation = Some ''No response was generated from the model.''\<rparr>"
  by code_simp

text \<open>
  Claim C8, amended. For every text the language model returns, in both generators: a
  non-empty text that holds one of the generator's refusal phrases, compared without
  regard to case, gives the status \<^verbatim>\<open>insufficient_context\<close> with the reason code
  \<^verbatim>\<open>NO_RELEVANT_CONTEXT\<close> and a null answer, whatever else the text says; a
  non-empty text that holds none gives the status \<^verbatim>\<open>success\<close> with the trimmed
  text as the answer and the confidence score 0.85; and an empty text gives
  \<^verbatim>\<open>insufficient_context\<close> with \<^verbatim>\<open>NO_RELEVANT_CONTEXT\<close> and a null answer.
\<close>

theorem refusal_phrase_interpretation:
  "(language_model env (rag_prompt qn context) = Inr txt \<longrightarrow>
      snd (gemini_generate_rag_response env qn context) =
        (if txt = [] then
           \<lparr>gen_answer = None, gen_status = ''insufficient_context'',
            gen_confidence_score = None, gen_reason_code = Some ''NO_RELEVANT_CONTEXT'',
            gen_explanation = Some ''No response was generated from the model.''\<rparr>
         else if list_ex (\<lambda>p. py_in p (py_lower txt)) refusal_phrases then
           \<lparr>gen_answer = None, gen_status = ''insufficient_context'',
            gen_confidence_score = None, gen_reason_code = Some ''NO_RELEVANT_CONTEXT'',
            gen_explanation = Some ''No relevant context found in the provided information.''\<rparr>
         else
           \<lparr>gen_answer = Some (py_strip txt), gen_status = ''success'',
            gen_confidence_score = Some 0.85, gen_reason_code = None,
            gen_explanation = None\<rparr>)) \<and>
   (language_model env (selected_text_prompt qn context) = Inr txt \<longrightarrow>
      snd (selected_text_generate_rag_response env qn context) =
        (if txt = [] then
           \<lparr>gen_answer = None, gen_status = ''insufficient_context'',
            gen_confidence_score = None, gen_reason_code = Some ''NO_RELEVANT_CONTEXT'',
            gen_explanation = Some ''No response was generated from the model.''\<rparr>
         else if list_ex (\<lambda>p. py_in p (py_lower txt)) selected_text_refusal_phrases then
           \<lparr>gen_answer = None, gen_status = ''insufficient_context'',
            gen_confidence_score = None, gen_reason_code = Some ''NO_RELEVANT_CONTEXT'',
            gen_explanation =
              Some ''No relevant information found in the selected text to answer the question.''\<rparr>
         else
           \<lparr>gen_answer = Some (py_strip txt), gen_status = ''success'',
            gen_confidence_score = Some 0.85, gen_reason_code = None,
            gen_explanation = None\<rparr>))"
  by (simp add: gemini_generate_rag_response_def selected_text_generate_rag_response_def Let_def
      interpret_reply_text [OF refusal_phrases_shape]
      interpret_reply_text [OF selected_text_refusal_phrases_shape])

theorem refusal_phrase_interpretation_witness:
  "snd (gemini_generate_rag_response refusing_providers ''What is the weather on Mars?'' ''ctx'') =
     \<lparr>gen_answer = None, gen_status = ''insufficient_context'',
      gen_confidence_score = None, gen_reason_code = Some ''NO_RELEVANT_CONTEXT'',
      gen_explanation = Some ''No relevant context found in the provided information.''\<rparr> \<and>
   snd (selected_text_generate_rag_response scenario_providers ''What does this text say?''
          ''Robots walk on two legs.'') =
     \<lparr>gen_answer = Some ''AI is the simulation of human intelligence.'', gen_status = ''success'',
      gen_confidence_score = Some 0.85, gen_reason_code = None, gen_explanation = None\<rparr>"
  using refusal_phrase_interpretation [of refusing_providers "''What is the weather on Mars?''"
      "''ctx''" "''  I Cannot Answer that from the context. ''"]
    refusal_phrase_interpretation [of scenario_providers "''What does this text say?''"
      "''Robots walk on two legs.''" "''AI is the simulation of human intelligence.''"]
    refusing_reply refusing_reply_has_phrase scenario_selected_reply
    scenario_reply_has_no_phrase scenario_reply_stripped
  by simp

section \<open>Failures of the providers\<close>

lemma validated_question_nonempty: "validate_query_request q = [] \<Longrightarrow> question q \<noteq> []"
  by (auto simp: validate_query_request_def split: if_splits)

lemma query_endpoint_of_raise:
  "query_endpoint_body env q = (calls, Inl e) \<Longrightarrow>
   query_endpoint env q =
     (calls, format_refusal_response (req_id q) ''ERROR''
               (''An error occurred while processing your request: '' @ exn_str env e))"
  by (simp add: query_endpoint_def)

text \<open>
  What the \<^verbatim>\<open>except Exception\<close> clause returns, field by field, for every exception
  of the body: the refusal envelope, with the message of the exception at the end of the
  explanation.
\<close>

lemma exception_becomes_refusal_envelope:
  "query_endpoint_body env q = (calls, Inl e) \<Longrightarrow>
   query_endpoint env q =
     (calls,
      \<lparr>resp_id = ''ref_'' @ req_id q, query_id = req_id q, answer = None,
       reason_code = Some ''ERROR'',
       explanation = Some (''An error occurred while processing your request: '' @ exn_str env e),
       citations = [], retrieved_chunks = [], confidence_score = None,
       status = ''insufficient_context''\<rparr>)"
  by (simp add: query_endpoint_def format_refusal_response_def)

text \<open>The two provider failures that reach that clause.\<close>

lemma embedding_failure_envelope:
  assumes "validate_query_request q = []" and "embedding_provider env (question q) = Inl e"
  shows "query_endpoint env q =
     ([EmbedCall (question q)],
      \<lparr>resp_id = ''ref_'' @ req_id q, query_id = req_id q, answer = None,
       reason_code = Some ''ERROR'',
       explanation = Some (''An error occurred while processing your request: '' @ exn_str env e),
       citations = [], retrieved_chunks = [], confidence_score = None,
       status = ''insufficient_context''\<rparr>)"
proof -
  from assms have "create_single_embedding env (question q) = ([EmbedCall (question q)], Inl e)"
    by (simp add: create_single_embedding_def validated_question_nonempty)
  with assms(1) have "query_endpoint_body env q = ([EmbedCall (question q)], Inl e)"
    by (simp add: body_embedding_raises)
  then show ?thesis by (rule exception_becomes_refusal_envelope)
qed

lemma search_failure_envelope:
  assumes "validate_query_request q = []" and "embedding_provider env (question q) = Inr emb"
    and "query_mode q = ''book-wide''" and "vector_index env emb 5 = Inl e"
  shows "query_endpoint env q =
     ([EmbedCall (question q), SearchCall emb 5],
      \<lparr>resp_id = ''ref_'' @ req_id q, query_id = req_id q, answer = None,
       reason_code = Some ''ERROR'',
       explanation = Some (''An error occurred while processing your request: '' @ exn_str env e),
       citations = [], retrieved_chunks = [], confidence_score = None,
       status = ''insufficient_context''\<rparr>)"
proof -
  from assms(1,2)
  have 1: "create_single_embedding env (question q) = ([EmbedCall (question q)], Inr emb)"
    by (simp add: create_single_embedding_def validated_question_nonempty)
  from assms(3,4) have 2: "retrieve_for_query env emb (query_mode q) (selected_text q) 5 =
      ([SearchCall emb 5], Inl e)"
    by (simp add: retrieve_for_query_def retrieve_book_wide_def split: option.splits)
  from body_retrieval_raises [OF assms(1) 1 2]
  have "query_endpoint_body env q = ([EmbedCall (question q), SearchCall emb 5], Inl e)"
    by simp
  then show ?thesis by (rule exception_becomes_refusal_envelope)
qed

text \<open>
  Claim C6 at the input where the embedding provider raises: nothing is raised to the
  caller, but the response returned has the status \<^verbatim>\<open>insufficient_context\<close>, not
  \<^verbatim>\<open>error\<close>, and its explanation ends with the message of the exception.
\<close>

theorem provider_failure_not_error_response:
  "query_endpoint embedding_down_providers scenario_request =
     ([EmbedCall ''What is artificial intelligence?''],
      \<lparr>resp_id = ''ref_q1'', query_id = ''q1'', answer = None,
       reason_code = Some ''ERROR'',
       explanation = Some ''An error occurred while processing your request: connection refused'',
       citations = [], retrieved_chunks = [], confidence_score = None,
       status = ''insufficient_context''\<rparr>) \<and>
   status (snd (query_endpoint embedding_down_providers scenario_request)) \<noteq> ''error'' \<and>
   py_in ''connection refused''
     (case explanation (snd (query_endpoint embedding_down_providers scenario_request)) of
        Some expl \<Rightarrow> expl | None \<Rightarrow> [])"
  by code_simp

section \<open>The generator's error status\<close>

text \<open>
  Claim C2 at the input where the language model raises: the generator returns the
  status \<^verbatim>\<open>error\<close>, the endpoint tests the status only against
  \<^verbatim>\<open>insufficient_context\<close>, and the response of status \<^verbatim>\<open>error\<close> carries a
  citation.
\<close>

theorem generator_error_keeps_citations:
  "query_endpoint llm_down_providers scenario_request =
     ([EmbedCall ''What is artificial intelligence?'',
       SearchCall [0.1, 0.2, 0.3] 5,
       GenerateCall (rag_prompt ''What is artificial intelligence?''
          ''Source: doc_ai_1 | Content: Artificial intelligence is the simulation of human intelligence...'')],
      \<lparr>resp_id = ''resp_q1'', query_id = ''q1'', answer = None,
       reason_code = None, explanation = None,
       citations =
         [\<lparr>cit_id = ''cit_q1_0'', cit_response_id = ''q1'',
           cit_document_id = ''doc_ai_1'', cit_chapter = ''Doc'',
           cit_section = ''Ai'', file_path = ''doc_ai_1'',
           relevance_score = 0.75,
           text_snippet = ''Artificial intelligence is the simulation of human intelligence''\<rparr>],
       retrieved_chunks = [''p1''], confidence_score = None,
       status = ''error''\<rparr>)"
  by code_simp

section \<open>Rejection of an invalid request\<close>

text \<open>
  The validator collects every violated rule, and an invalid request reaches no
  provider.
\<close>

lemma validate_query_request_collects_all:
  "validate_query_request q =
     (if length (py_strip (question q)) < 3
      then [''Question must be at least 3 characters long''] else [])
     @ (if query_mode q \<noteq> ''book-wide'' \<and> query_mode q \<noteq> ''selected-text''
        then [''Query mode must be either 'book-wide' or 'selected-text'' @ [CHR 0x27]] else [])
     @ (if query_mode q = ''selected-text'' \<and>
           (case selected_text q of None \<Rightarrow> True | Some s \<Rightarrow> py_strip s = [])
        then [''Selected text must be provided when query mode is 'selected-text'' @ [CHR 0x27]]
        else [])"
  by (auto simp: validate_query_request_def py_strip_Nil split: option.splits)

lemma invalid_request_no_external_call:
  "validate_query_request q \<noteq> [] \<Longrightarrow> fst (query_endpoint env q) = []"
  by (simp add: query_endpoint_of_raise [OF body_invalid])

lemma short_request_errors:
  "validate_query_request short_request = [''Question must be at least 3 characters long'']"
  by code_simp

text \<open>
  Claim C7 at the question \<^verbatim>\<open>Hi\<close>: the body raises the \<^verbatim>\<open>HTTPException\<close> of
  status 400 with the violated rule, and the \<^verbatim>\<open>except Exception\<close> clause of the
  endpoint turns it into a returned refusal envelope with the reason code
  \<^verbatim>\<open>ERROR\<close>.
\<close>

theorem validation_failure_not_client_error:
  "query_endpoint_body env short_request =
     ([], Inl (HTTPException 400 [''Question must be at least 3 characters long''])) \<and>
   query_endpoint env short_request =
     ([], \<lparr>resp_id = ''ref_q2'', query_id = ''q2'', answer = None,
           reason_code = Some ''ERROR'',
           explanation =
             Some (''An error occurred while processing your request: ''
                   @ http_exception_str env 400 [''Question must be at least 3 characters long'']),
           citations = [], retrieved_chunks = [], confidence_score = None,
           status = ''insufficient_context''\<rparr>)"
proof -
  have ne: "validate_query_request short_request \<noteq> []"
    by (simp add: short_request_errors)
  have b: "query_endpoint_body env short_request =
     ([], Inl (HTTPException 400 [''Question must be at least 3 characters long'']))"
    using body_invalid [OF ne, of env] by (simp add: short_request_errors)
  from query_endpoint_of_raise [OF b] have "query_endpoint env short_request =
     ([], \<lparr>resp_id = ''ref_q2'', query_id = ''q2'', answer = None,
           reason_code = Some ''ERROR'',
           explanation =
             Some (''An error occurred while processing your request: ''
                   @ http_exception_str env 400 [''Question must be at least 3 characters long'']),
           citations = [], retrieved_chunks = [], confidence_score = None,
           status = ''insufficient_context''\<rparr>)"
    by (simp add: format_refusal_response_def exn_str_def short_request_def)
  with b show ?thesis by simp
qed

end
